theory Spec2Isabelle
  imports Main "HOL-Library.Sublist"
begin

section \<open>Entity model\<close>

text \<open>
  The six record types of \<^verbatim>\<open>@shared/schema\<close> as \<^verbatim>\<open>server/storage.ts\<close> uses them.
  A field that the code fills with \<^verbatim>\<open>?? null\<close> is an option (\<open>None\<close> is \<^verbatim>\<open>null\<close>);
  in a creation input \<open>None\<close> stands for a field that is absent, \<^verbatim>\<open>undefined\<close> or
  \<^verbatim>\<open>null\<close>, which \<^verbatim>\<open>??\<close> does not tell apart. Identifiers are strings, timestamps are
  natural numbers, decimal columns are strings.
\<close>

datatype role = Customer | Provider | Admin

record user =
  u_id :: string
  u_email :: string
  u_password :: string
  u_firstName :: string
  u_lastName :: string
  u_role :: role
  u_phone :: "string option"
  u_createdAt :: nat

record insertUser =
  iu_email :: string
  iu_password :: string
  iu_firstName :: string
  iu_lastName :: string
  iu_role :: "role option"
  iu_phone :: "string option"

record serviceCategory =
  sc_id :: string
  sc_name :: string
  sc_description :: "string option"
  sc_icon :: string
  sc_color :: string

record insertServiceCategory =
  isc_name :: string
  isc_description :: "string option"
  isc_icon :: string
  isc_color :: string

record provider =
  p_id :: string
  p_userId :: string
  p_specialty :: string
  p_businessName :: "string option"
  p_location :: string
  p_description :: "string option"
  p_hourlyRate :: "string option"
  p_isApproved :: bool
  p_isAvailable :: bool
  p_rating :: string
  p_reviewCount :: int
  p_categories :: "string list option"
  p_portfolio :: "string list"
  p_certifications :: "string list"
  p_yearsExperience :: "int option"
  p_profileImage :: "string option"
  p_availability :: "string option"
  p_serviceRadius :: "int option"
  p_createdAt :: nat

record insertProvider =
  ip_userId :: string
  ip_specialty :: string
  ip_location :: "string option"
  ip_description :: "string option"
  ip_isApproved :: "bool option"
  ip_isAvailable :: "bool option"
  ip_businessName :: "string option"
  ip_serviceRadius :: "int option"
  ip_hourlyRate :: "string option"
  ip_rating :: "string option"
  ip_reviewCount :: "int option"
  ip_categories :: "string list option"
  ip_availability :: "string option"
  ip_profileImage :: "string option"
  ip_portfolio :: "string list option"
  ip_certifications :: "string list option"
  ip_yearsExperience :: "int option"

record providerCategory =
  pc_id :: string
  pc_providerId :: string
  pc_categoryId :: string

record insertProviderCategory =
  ipc_providerId :: string
  ipc_categoryId :: string

record booking =
  b_id :: string
  b_customerId :: string
  b_providerId :: string
  b_status :: string
  b_estimatedDuration :: "int option"
  b_estimatedCost :: "string option"
  b_actualCost :: "string option"
  b_notes :: "string option"
  b_createdAt :: nat

record insertBooking =
  ib_customerId :: string
  ib_providerId :: string
  ib_status :: "string option"
  ib_estimatedDuration :: "int option"
  ib_estimatedCost :: "string option"
  ib_actualCost :: "string option"
  ib_notes :: "string option"

record review =
  r_id :: string
  r_providerId :: string
  r_customerId :: string
  r_bookingId :: string
  r_rating :: int
  r_comment :: "string option"
  r_isVisible :: bool
  r_createdAt :: nat

record insertReview =
  ir_providerId :: string
  ir_customerId :: string
  ir_bookingId :: string
  ir_rating :: int
  ir_comment :: "string option"
  ir_isVisible :: "bool option"


text \<open>
  \<^verbatim>\<open>Partial<T>\<close>: every field of the entity may or may not be a key of the update
  object; \<open>None\<close> is a key that is absent. For a nullable field the outer option is the
  presence of the key and the inner one its value. A key that is present with the value
  \<^verbatim>\<open>undefined\<close> is dropped by the durable store's query builder, so there it is a key
  that is absent; the volatile store's spread would copy \<^verbatim>\<open>undefined\<close> into the field,
  a value that the entity records do not have, and such update objects are outside these
  records.
\<close>

record userUpdates =
  uu_id :: "string option"
  uu_email :: "string option"
  uu_password :: "string option"
  uu_firstName :: "string option"
  uu_lastName :: "string option"
  uu_role :: "role option"
  uu_phone :: "string option option"
  uu_createdAt :: "nat option"

record providerUpdates =
  pu_id :: "string option"
  pu_userId :: "string option"
  pu_specialty :: "string option"
  pu_businessName :: "string option option"
  pu_location :: "string option"
  pu_description :: "string option option"
  pu_hourlyRate :: "string option option"
  pu_isApproved :: "bool option"
  pu_isAvailable :: "bool option"
  pu_rating :: "string option"
  pu_reviewCount :: "int option"
  pu_categories :: "string list option option"
  pu_portfolio :: "string list option"
  pu_certifications :: "string list option"
  pu_yearsExperience :: "int option option"
  pu_profileImage :: "string option option"
  pu_availability :: "string option option"
  pu_serviceRadius :: "int option option"
  pu_createdAt :: "nat option"

record bookingUpdates =
  bu_id :: "string option"
  bu_customerId :: "string option"
  bu_providerId :: "string option"
  bu_status :: "string option"
  bu_estimatedDuration :: "int option option"
  bu_estimatedCost :: "string option option"
  bu_actualCost :: "string option option"
  bu_notes :: "string option option"
  bu_createdAt :: "nat option"

record reviewUpdates =
  ru_id :: "string option"
  ru_providerId :: "string option"
  ru_customerId :: "string option"
  ru_bookingId :: "string option"
  ru_rating :: "int option"
  ru_comment :: "string option option"
  ru_isVisible :: "bool option"
  ru_createdAt :: "nat option"

text \<open>
  The object spread \<^verbatim>\<open>{ ...entity, ...updates }\<close>, field by field: a key of the update
  object wins, a key it does not have keeps the entity's value.
\<close>

definition later_wins :: "'a \<Rightarrow> 'a option \<Rightarrow> 'a" where
  "later_wins old upd = (case upd of None \<Rightarrow> old | Some v \<Rightarrow> v)"

definition spread_user :: "user \<Rightarrow> userUpdates \<Rightarrow> user" where
  "spread_user u upd =
     \<lparr> u_id = later_wins (u_id u) (uu_id upd),
       u_email = later_wins (u_email u) (uu_email upd),
       u_password = later_wins (u_password u) (uu_password upd),
       u_firstName = later_wins (u_firstName u) (uu_firstName upd),
       u_lastName = later_wins (u_lastName u) (uu_lastName upd),
       u_role = later_wins (u_role u) (uu_role upd),
       u_phone = later_wins (u_phone u) (uu_phone upd),
       u_createdAt = later_wins (u_createdAt u) (uu_createdAt upd) \<rparr>"

definition spread_provider :: "provider \<Rightarrow> providerUpdates \<Rightarrow> provider" where
  "spread_provider p upd =
     \<lparr> p_id = later_wins (p_id p) (pu_id upd),
       p_userId = later_wins (p_userId p) (pu_userId upd),
       p_specialty = later_wins (p_specialty p) (pu_specialty upd),
       p_businessName = later_wins (p_businessName p) (pu_businessName upd),
       p_location = later_wins (p_location p) (pu_location upd),
       p_description = later_wins (p_description p) (pu_description upd),
       p_hourlyRate = later_wins (p_hourlyRate p) (pu_hourlyRate upd),
       p_isApproved = later_wins (p_isApproved p) (pu_isApproved upd),
       p_isAvailable = later_wins (p_isAvailable p) (pu_isAvailable upd),
       p_rating = later_wins (p_rating p) (pu_rating upd),
       p_reviewCount = later_wins (p_reviewCount p) (pu_reviewCount upd),
       p_categories = later_wins (p_categories p) (pu_categories upd),
       p_portfolio = later_wins (p_portfolio p) (pu_portfolio upd),
       p_certifications = later_wins (p_certifications p) (pu_certifications upd),
       p_yearsExperience = later_wins (p_yearsExperience p) (pu_yearsExperience upd),
       p_profileImage = later_wins (p_profileImage p) (pu_profileImage upd),
       p_availability = later_wins (p_availability p) (pu_availability upd),
       p_serviceRadius = later_wins (p_serviceRadius p) (pu_serviceRadius upd),
       p_createdAt = later_wins (p_createdAt p) (pu_createdAt upd) \<rparr>"

definition spread_booking :: "booking \<Rightarrow> bookingUpdates \<Rightarrow> booking" where
  "spread_booking b upd =
     \<lparr> b_id = later_wins (b_id b) (bu_id upd),
       b_customerId = later_wins (b_customerId b) (bu_customerId upd),
       b_providerId = later_wins (b_providerId b) (bu_providerId upd),
       b_status = later_wins (b_status b) (bu_status upd),
       b_estimatedDuration = later_wins (b_estimatedDuration b) (bu_estimatedDuration upd),
       b_estimatedCost = later_wins (b_estimatedCost b) (bu_estimatedCost upd),
       b_actualCost = later_wins (b_actualCost b) (bu_actualCost upd),
       b_notes = later_wins (b_notes b) (bu_notes upd),
       b_createdAt = later_wins (b_createdAt b) (bu_createdAt upd) \<rparr>"

definition spread_review :: "review \<Rightarrow> reviewUpdates \<Rightarrow> review" where
  "spread_review r upd =
     \<lparr> r_id = later_wins (r_id r) (ru_id upd),
       r_providerId = later_wins (r_providerId r) (ru_providerId upd),
       r_customerId = later_wins (r_customerId r) (ru_customerId upd),
       r_bookingId = later_wins (r_bookingId r) (ru_bookingId upd),
       r_rating = later_wins (r_rating r) (ru_rating upd),
       r_comment = later_wins (r_comment r) (ru_comment upd),
       r_isVisible = later_wins (r_isVisible r) (ru_isVisible upd),
       r_createdAt = later_wins (r_createdAt r) (ru_createdAt upd) \<rparr>"

text \<open>Whether an update object has a key with a defined value.\<close>

definition userUpdates_defined :: "userUpdates \<Rightarrow> bool" where
  "userUpdates_defined upd =
     (uu_id upd \<noteq> None \<or> uu_email upd \<noteq> None \<or> uu_password upd \<noteq> None
      \<or> uu_firstName upd \<noteq> None \<or> uu_lastName upd \<noteq> None \<or> uu_role upd \<noteq> None
      \<or> uu_phone upd \<noteq> None \<or> uu_createdAt upd \<noteq> None)"

definition providerUpdates_defined :: "providerUpdates \<Rightarrow> bool" where
  "providerUpdates_defined upd =
     (pu_id upd \<noteq> None \<or> pu_userId upd \<noteq> None \<or> pu_specialty upd \<noteq> None
      \<or> pu_businessName upd \<noteq> None \<or> pu_location upd \<noteq> None
      \<or> pu_description upd \<noteq> None \<or> pu_hourlyRate upd \<noteq> None
      \<or> pu_isApproved upd \<noteq> None \<or> pu_isAvailable upd \<noteq> None
      \<or> pu_rating upd \<noteq> None \<or> pu_reviewCount upd \<noteq> None
      \<or> pu_categories upd \<noteq> None \<or> pu_portfolio upd \<noteq> None
      \<or> pu_certifications upd \<noteq> None \<or> pu_yearsExperience upd \<noteq> None
      \<or> pu_profileImage upd \<noteq> None \<or> pu_availability upd \<noteq> None
      \<or> pu_serviceRadius upd \<noteq> None \<or> pu_createdAt upd \<noteq> None)"

definition bookingUpdates_defined :: "bookingUpdates \<Rightarrow> bool" where
  "bookingUpdates_defined upd =
     (bu_id upd \<noteq> None \<or> bu_customerId upd \<noteq> None \<or> bu_providerId upd \<noteq> None
      \<or> bu_status upd \<noteq> None \<or> bu_estimatedDuration upd \<noteq> None
      \<or> bu_estimatedCost upd \<noteq> None \<or> bu_actualCost upd \<noteq> None
      \<or> bu_notes upd \<noteq> None \<or> bu_createdAt upd \<noteq> None)"

definition reviewUpdates_defined :: "reviewUpdates \<Rightarrow> bool" where
  "reviewUpdates_defined upd =
     (ru_id upd \<noteq> None \<or> ru_providerId upd \<noteq> None \<or> ru_customerId upd \<noteq> None
      \<or> ru_bookingId upd \<noteq> None \<or> ru_rating upd \<noteq> None \<or> ru_comment upd \<noteq> None
      \<or> ru_isVisible upd \<noteq> None \<or> ru_createdAt upd \<noteq> None)"

section \<open>The JavaScript Map\<close>

text \<open>
  A \<^verbatim>\<open>Map<string, V>\<close> enumerates its entries in insertion order, so it is an
  association list: \<^verbatim>\<open>set\<close> replaces the value of a key in place and appends a new key
  at the end, \<^verbatim>\<open>delete\<close> reports whether the key was there, \<^verbatim>\<open>values()\<close> lists the
  values in order. A map built by \<^verbatim>\<open>set\<close> from the empty map has distinct keys
  (\<open>jsmap_set_distinct\<close>); no definition and no theorem below depends on it.
\<close>

type_synonym 'v jsmap = "(string \<times> 'v) list"

definition jsmap_get :: "'v jsmap \<Rightarrow> string \<Rightarrow> 'v option" where
  "jsmap_get m k = map_of m k"

definition jsmap_has :: "'v jsmap \<Rightarrow> string \<Rightarrow> bool" where
  "jsmap_has m k = (map_of m k \<noteq> None)"

fun jsmap_set :: "string \<Rightarrow> 'v \<Rightarrow> 'v jsmap \<Rightarrow> 'v jsmap" where
  "jsmap_set k v [] = [(k, v)]"
| "jsmap_set k v (e # m) = (if fst e = k then (k, v) # m else e # jsmap_set k v m)"

definition jsmap_delete :: "string \<Rightarrow> 'v jsmap \<Rightarrow> bool \<times> 'v jsmap" where
  "jsmap_delete k m = (jsmap_has m k, filter (\<lambda>e. fst e \<noteq> k) m)"

definition jsmap_values :: "'v jsmap \<Rightarrow> 'v list" where
  "jsmap_values m = map snd m"

definition jsmap_keys :: "'v jsmap \<Rightarrow> string list" where
  "jsmap_keys m = map fst m"

text \<open>JavaScript truthiness of an optional string: absent and the empty string are falsy.\<close>

definition truthy :: "string option \<Rightarrow> bool" where
  "truthy s = (case s of None \<Rightarrow> False | Some v \<Rightarrow> v \<noteq> [])"


text \<open>The nullish coalescing operator \<^verbatim>\<open>x ?? d\<close>.\<close>

definition nullish :: "'a option \<Rightarrow> 'a \<Rightarrow> 'a" where
  "nullish x d = (case x of None \<Rightarrow> d | Some v \<Rightarrow> v)"

text \<open>
  \<^verbatim>\<open>String.prototype.includes\<close>: \<open>str_includes\<close> looks for the needle at every position
  of the string. \<^verbatim>\<open>String.prototype.toLowerCase\<close> follows the case tables of Unicode,
  which are no part of the repository: wherever the code calls it, the model takes the
  function as an argument, \<open>toLowerCase\<close>, and what is proved holds for every such
  function.
\<close>

fun str_includes :: "string \<Rightarrow> string \<Rightarrow> bool" where
  "str_includes [] needle = (needle = [])"
| "str_includes (c # s) needle = (prefix needle (c # s) \<or> str_includes s needle)"

section \<open>The volatile store (class MemStorage)\<close>

record memStorage =
  users :: "user jsmap"
  serviceCategories :: "serviceCategory jsmap"
  providers :: "provider jsmap"
  providerCategories :: "providerCategory jsmap"
  bookings :: "booking jsmap"
  reviews :: "review jsmap"

definition MemStorage_empty :: memStorage where
  "MemStorage_empty =
     \<lparr> users = [], serviceCategories = [], providers = [], providerCategories = [],
       bookings = [], reviews = [] \<rparr>"

text \<open>
  Every method is a function from the store to its result and the store it leaves.
  A \<^verbatim>\<open>create\<close> method draws \<^verbatim>\<open>randomUUID()\<close> and \<^verbatim>\<open>new Date()\<close>; both are arguments
  (\<open>newId\<close>, \<open>now\<close>) of the model.
\<close>

subsection \<open>Users\<close>

definition MemStorage_getUser :: "string \<Rightarrow> memStorage \<Rightarrow> user option" where
  "MemStorage_getUser ident st = jsmap_get (users st) ident"

definition MemStorage_getUserByEmail :: "string \<Rightarrow> memStorage \<Rightarrow> user option" where
  "MemStorage_getUserByEmail email st =
     find (\<lambda>u. u_email u = email) (jsmap_values (users st))"

definition MemStorage_getAllUsers :: "memStorage \<Rightarrow> user list" where
  "MemStorage_getAllUsers st = jsmap_values (users st)"

definition MemStorage_createUser ::
  "string \<Rightarrow> nat \<Rightarrow> insertUser \<Rightarrow> memStorage \<Rightarrow> user \<times> memStorage" where
  "MemStorage_createUser newId now insertUser st =
     (let newUser =
        \<lparr> u_id = newId,
          u_email = iu_email insertUser,
          u_password = iu_password insertUser,
          u_firstName = iu_firstName insertUser,
          u_lastName = iu_lastName insertUser,
          u_role = nullish (iu_role insertUser) Customer,
          u_phone = iu_phone insertUser,
          u_createdAt = now \<rparr>
      in (newUser, st\<lparr>users := jsmap_set newId newUser (users st)\<rparr>))"

definition MemStorage_updateUser ::
  "string \<Rightarrow> userUpdates \<Rightarrow> memStorage \<Rightarrow> user option \<times> memStorage" where
  "MemStorage_updateUser ident updates st =
     (case jsmap_get (users st) ident of
        None \<Rightarrow> (None, st)
      | Some u \<Rightarrow>
          (let updatedUser = spread_user u updates
           in (Some updatedUser, st\<lparr>users := jsmap_set ident updatedUser (users st)\<rparr>)))"

subsection \<open>Service categories\<close>

definition MemStorage_getServiceCategories :: "memStorage \<Rightarrow> serviceCategory list" where
  "MemStorage_getServiceCategories st = jsmap_values (serviceCategories st)"

definition MemStorage_createServiceCategory ::
  "string \<Rightarrow> insertServiceCategory \<Rightarrow> memStorage \<Rightarrow> serviceCategory \<times> memStorage" where
  "MemStorage_createServiceCategory newId category st =
     (let serviceCategory =
        \<lparr> sc_id = newId,
          sc_name = isc_name category,
          sc_description = isc_description category,
          sc_icon = isc_icon category,
          sc_color = isc_color category \<rparr>
      in (serviceCategory,
          st\<lparr>serviceCategories := jsmap_set newId serviceCategory (serviceCategories st)\<rparr>))"

subsection \<open>Providers\<close>

record userSummary =
  us_id :: string
  us_firstName :: string
  us_lastName :: string
  us_email :: string

text \<open>
  \<^verbatim>\<open>{ ...provider, user: ... }\<close>: the provider's fields and one more, \<open>user\<close>, which is
  the summary or \<^verbatim>\<open>null\<close>.
\<close>

record providerWithUser = provider +
  user :: "userSummary option"

definition with_user :: "provider \<Rightarrow> userSummary option \<Rightarrow> providerWithUser" where
  "with_user p us =
     \<lparr> p_id = p_id p, p_userId = p_userId p, p_specialty = p_specialty p,
       p_businessName = p_businessName p, p_location = p_location p,
       p_description = p_description p, p_hourlyRate = p_hourlyRate p,
       p_isApproved = p_isApproved p, p_isAvailable = p_isAvailable p,
       p_rating = p_rating p, p_reviewCount = p_reviewCount p,
       p_categories = p_categories p, p_portfolio = p_portfolio p,
       p_certifications = p_certifications p, p_yearsExperience = p_yearsExperience p,
       p_profileImage = p_profileImage p, p_availability = p_availability p,
       p_serviceRadius = p_serviceRadius p, p_createdAt = p_createdAt p,
       user = us \<rparr>"

record providerFilters =
  pf_categoryId :: "string option"
  pf_location :: "string option"
  pf_isApproved :: "bool option"

definition MemStorage_getProvider :: "string \<Rightarrow> memStorage \<Rightarrow> provider option" where
  "MemStorage_getProvider ident st = jsmap_get (providers st) ident"

definition MemStorage_getProviderByUserId :: "string \<Rightarrow> memStorage \<Rightarrow> provider option" where
  "MemStorage_getProviderByUserId userId st =
     find (\<lambda>p. p_userId p = userId) (jsmap_values (providers st))"

definition MemStorage_getProviders ::
  "(string \<Rightarrow> string) \<Rightarrow> providerFilters option \<Rightarrow> memStorage \<Rightarrow> providerWithUser list" where
  "MemStorage_getProviders toLowerCase filters st =
     (let providersWithUsers =
            map (\<lambda>p. with_user p
                   (case jsmap_get (users st) (p_userId p) of
                      None \<Rightarrow> None
                    | Some u \<Rightarrow>
                        Some \<lparr> us_id = u_id u, us_firstName = u_firstName u,
                               us_lastName = u_lastName u, us_email = u_email u \<rparr>))
              (jsmap_values (providers st));
          filtered1 =
            (case Option.bind filters pf_isApproved of
               None \<Rightarrow> providersWithUsers
             | Some a \<Rightarrow> filter (\<lambda>p. p_isApproved p = a) providersWithUsers);
          filtered2 =
            (case Option.bind filters pf_location of
               None \<Rightarrow> filtered1
             | Some loc \<Rightarrow>
                 if truthy (Some loc)
                 then filter (\<lambda>p. str_includes (toLowerCase (p_location p)) (toLowerCase loc))
                        filtered1
                 else filtered1);
          filtered3 =
            (case Option.bind filters pf_categoryId of
               None \<Rightarrow> filtered2
             | Some cat \<Rightarrow>
                 if truthy (Some cat)
                 then filter (\<lambda>p. case p_categories p of
                                     None \<Rightarrow> False
                                   | Some cs \<Rightarrow> cat \<in> set cs)
                        filtered2
                 else filtered2)
      in filtered3)"

definition MemStorage_createProvider ::
  "string \<Rightarrow> nat \<Rightarrow> insertProvider \<Rightarrow> memStorage \<Rightarrow> provider \<times> memStorage" where
  "MemStorage_createProvider newId now ins st =
     (let newProvider =
        \<lparr> p_id = newId,
          p_userId = ip_userId ins,
          p_specialty = ip_specialty ins,
          p_businessName = ip_businessName ins,
          p_location = nullish (ip_location ins) [],
          p_description = ip_description ins,
          p_hourlyRate = ip_hourlyRate ins,
          p_isApproved = nullish (ip_isApproved ins) False,
          p_isAvailable = nullish (ip_isAvailable ins) True,
          p_rating = nullish (ip_rating ins) ''0'',
          p_reviewCount = nullish (ip_reviewCount ins) 0,
          p_categories = Some (nullish (ip_categories ins) []),
          p_portfolio = nullish (ip_portfolio ins) [],
          p_certifications = nullish (ip_certifications ins) [],
          p_yearsExperience = ip_yearsExperience ins,
          p_profileImage = ip_profileImage ins,
          p_availability = ip_availability ins,
          p_serviceRadius = ip_serviceRadius ins,
          p_createdAt = now \<rparr>
      in (newProvider, st\<lparr>providers := jsmap_set newId newProvider (providers st)\<rparr>))"

definition MemStorage_updateProvider ::
  "string \<Rightarrow> providerUpdates \<Rightarrow> memStorage \<Rightarrow> provider option \<times> memStorage" where
  "MemStorage_updateProvider ident updates st =
     (case jsmap_get (providers st) ident of
        None \<Rightarrow> (None, st)
      | Some p \<Rightarrow>
          (let updatedProvider = spread_provider p updates
           in (Some updatedProvider,
               st\<lparr>providers := jsmap_set ident updatedProvider (providers st)\<rparr>)))"


subsection \<open>Provider categories\<close>

definition MemStorage_getProviderCategories ::
  "string \<Rightarrow> memStorage \<Rightarrow> providerCategory list" where
  "MemStorage_getProviderCategories providerId st =
     filter (\<lambda>pc. pc_providerId pc = providerId) (jsmap_values (providerCategories st))"

definition MemStorage_createProviderCategory ::
  "string \<Rightarrow> insertProviderCategory \<Rightarrow> memStorage \<Rightarrow> providerCategory \<times> memStorage" where
  "MemStorage_createProviderCategory newId pc st =
     (let providerCategory =
        \<lparr> pc_id = newId, pc_providerId = ipc_providerId pc,
          pc_categoryId = ipc_categoryId pc \<rparr>
      in (providerCategory,
          st\<lparr>providerCategories := jsmap_set newId providerCategory (providerCategories st)\<rparr>))"

subsection \<open>Bookings\<close>

record bookingFilters =
  bf_customerId :: "string option"
  bf_providerId :: "string option"
  bf_status :: "string option"

definition MemStorage_getBooking :: "string \<Rightarrow> memStorage \<Rightarrow> booking option" where
  "MemStorage_getBooking ident st = jsmap_get (bookings st) ident"

definition MemStorage_getBookings :: "bookingFilters option \<Rightarrow> memStorage \<Rightarrow> booking list" where
  "MemStorage_getBookings filters st =
     (let bookings0 = jsmap_values (bookings st);
          bookings1 =
            (case Option.bind filters bf_customerId of
               None \<Rightarrow> bookings0
             | Some c \<Rightarrow>
                 if truthy (Some c) then filter (\<lambda>b. b_customerId b = c) bookings0
                 else bookings0);
          bookings2 =
            (case Option.bind filters bf_providerId of
               None \<Rightarrow> bookings1
             | Some p \<Rightarrow>
                 if truthy (Some p) then filter (\<lambda>b. b_providerId b = p) bookings1
                 else bookings1);
          bookings3 =
            (case Option.bind filters bf_status of
               None \<Rightarrow> bookings2
             | Some s \<Rightarrow>
                 if truthy (Some s) then filter (\<lambda>b. b_status b = s) bookings2
                 else bookings2)
      in bookings3)"

definition MemStorage_createBooking ::
  "string \<Rightarrow> nat \<Rightarrow> insertBooking \<Rightarrow> memStorage \<Rightarrow> booking \<times> memStorage" where
  "MemStorage_createBooking newId now ins st =
     (let newBooking =
        \<lparr> b_id = newId,
          b_customerId = ib_customerId ins,
          b_providerId = ib_providerId ins,
          b_status = nullish (ib_status ins) ''pending'',
          b_estimatedDuration = ib_estimatedDuration ins,
          b_estimatedCost = ib_estimatedCost ins,
          b_actualCost = ib_actualCost ins,
          b_notes = ib_notes ins,
          b_createdAt = now \<rparr>
      in (newBooking, st\<lparr>bookings := jsmap_set newId newBooking (bookings st)\<rparr>))"

definition MemStorage_updateBooking ::
  "string \<Rightarrow> bookingUpdates \<Rightarrow> memStorage \<Rightarrow> booking option \<times> memStorage" where
  "MemStorage_updateBooking ident updates st =
     (case jsmap_get (bookings st) ident of
        None \<Rightarrow> (None, st)
      | Some b \<Rightarrow>
          (let updatedBooking = spread_booking b updates
           in (Some updatedBooking,
               st\<lparr>bookings := jsmap_set ident updatedBooking (bookings st)\<rparr>)))"

subsection \<open>Reviews\<close>

definition MemStorage_getReviews :: "string \<Rightarrow> memStorage \<Rightarrow> review list" where
  "MemStorage_getReviews providerId st =
     filter (\<lambda>r. r_providerId r = providerId \<and> r_isVisible r) (jsmap_values (reviews st))"

definition MemStorage_createReview ::
  "string \<Rightarrow> nat \<Rightarrow> insertReview \<Rightarrow> memStorage \<Rightarrow> review \<times> memStorage" where
  "MemStorage_createReview newId now ins st =
     (let newReview =
        \<lparr> r_id = newId,
          r_providerId = ir_providerId ins,
          r_customerId = ir_customerId ins,
          r_bookingId = ir_bookingId ins,
          r_rating = ir_rating ins,
          r_comment = ir_comment ins,
          r_isVisible = nullish (ir_isVisible ins) True,
          r_createdAt = now \<rparr>
      in (newReview, st\<lparr>reviews := jsmap_set newId newReview (reviews st)\<rparr>))"

definition MemStorage_updateReview ::
  "string \<Rightarrow> reviewUpdates \<Rightarrow> memStorage \<Rightarrow> review option \<times> memStorage" where
  "MemStorage_updateReview ident updates st =
     (case jsmap_get (reviews st) ident of
        None \<Rightarrow> (None, st)
      | Some r \<Rightarrow>
          (let updatedReview = spread_review r updates
           in (Some updatedReview,
               st\<lparr>reviews := jsmap_set ident updatedReview (reviews st)\<rparr>)))"

definition MemStorage_deleteReview :: "string \<Rightarrow> memStorage \<Rightarrow> bool \<times> memStorage" where
  "MemStorage_deleteReview ident st =
     (let (existed, reviews') = jsmap_delete ident (reviews st)
      in (existed, st\<lparr>reviews := reviews'\<rparr>))"


section \<open>The durable store (class DbStorage)\<close>

text \<open>
  The module \<^verbatim>\<open>db\<close> is a relational database: one table, a list of rows, for each
  entity. The query builder is modelled by the meaning of the statement it issues:
  \<^verbatim>\<open>select().from(t).where(c)\<close> keeps the rows that satisfy \<open>c\<close>,
  \<^verbatim>\<open>insert(t).values(v).returning()\<close> appends one row and returns it,
  \<^verbatim>\<open>update(t).set(u).where(c).returning()\<close> rewrites the rows that satisfy \<open>c\<close> and
  returns them (when \<open>u\<close> has a value to set), \<^verbatim>\<open>delete(t).where(c).returning()\<close> removes
  and returns them. Failures of the connection and constraints of the schema are outside
  the model.
\<close>

record database =
  db_users :: "user list"
  db_serviceCategories :: "serviceCategory list"
  db_providers :: "provider list"
  db_providerCategories :: "providerCategory list"
  db_bookings :: "booking list"
  db_reviews :: "review list"

definition database_empty :: database where
  "database_empty =
     \<lparr> db_users = [], db_serviceCategories = [], db_providers = [],
       db_providerCategories = [], db_bookings = [], db_reviews = [] \<rparr>"

definition select_where :: "('r \<Rightarrow> bool) \<Rightarrow> 'r list \<Rightarrow> 'r list" where
  "select_where c t = filter c t"

definition update_where_returning ::
  "('r \<Rightarrow> 'r) \<Rightarrow> ('r \<Rightarrow> bool) \<Rightarrow> 'r list \<Rightarrow> 'r list \<times> 'r list" where
  "update_where_returning f c t =
     (map f (filter c t), map (\<lambda>r. if c r then f r else r) t)"

definition delete_where_returning :: "('r \<Rightarrow> bool) \<Rightarrow> 'r list \<Rightarrow> 'r list \<times> 'r list" where
  "delete_where_returning c t = (filter c t, filter (\<lambda>r. \<not> c r) t)"

text \<open>
  \<^verbatim>\<open>set(updates)\<close> throws the error \<^verbatim>\<open>No values to set\<close> when the update object has
  no key with a defined value, before any statement is issued; the exception leaves the
  method that called it. It is the only failure in the model: a method that can meet it
  returns the error or its result.
\<close>

datatype db_error = NoValuesToSet

text \<open>\<^verbatim>\<open>result[0]\<close>: the first row, or \<^verbatim>\<open>undefined\<close> when there is none.\<close>

definition first_row :: "'r list \<Rightarrow> 'r option" where
  "first_row rs = (case rs of [] \<Rightarrow> None | r # _ \<Rightarrow> Some r)"

subsection \<open>Inserted rows\<close>

text \<open>
  Modelled from the spec: the tables of \<^verbatim>\<open>@shared/schema\<close> and their column defaults
  are not among the sources. The row that an insert stores takes the identifier and the
  creation time generated for it (\<open>newId\<close>, \<open>now\<close>) and the defaults of the spec's data
  model: role \<^verbatim>\<open>customer\<close>, rating \<^verbatim>\<open>"0"\<close>, review count \<open>0\<close>, approval false,
  availability true, empty lists, status \<^verbatim>\<open>pending\<close>, visibility true, and \<^verbatim>\<open>null\<close> for
  every other optional column.
\<close>

definition users_row :: "string \<Rightarrow> nat \<Rightarrow> insertUser \<Rightarrow> user" where
  "users_row newId now ins =
     \<lparr> u_id = newId, u_email = iu_email ins, u_password = iu_password ins,
       u_firstName = iu_firstName ins, u_lastName = iu_lastName ins,
       u_role = nullish (iu_role ins) Customer, u_phone = iu_phone ins,
       u_createdAt = now \<rparr>"

definition serviceCategories_row :: "string \<Rightarrow> insertServiceCategory \<Rightarrow> serviceCategory" where
  "serviceCategories_row newId ins =
     \<lparr> sc_id = newId, sc_name = isc_name ins, sc_description = isc_description ins,
       sc_icon = isc_icon ins, sc_color = isc_color ins \<rparr>"

definition providers_row :: "string \<Rightarrow> nat \<Rightarrow> insertProvider \<Rightarrow> provider" where
  "providers_row newId now ins =
     \<lparr> p_id = newId, p_userId = ip_userId ins, p_specialty = ip_specialty ins,
       p_businessName = ip_businessName ins,
       p_location = nullish (ip_location ins) [],
       p_description = ip_description ins,
       p_hourlyRate = ip_hourlyRate ins,
       p_isApproved = nullish (ip_isApproved ins) False,
       p_isAvailable = nullish (ip_isAvailable ins) True,
       p_rating = nullish (ip_rating ins) ''0'',
       p_reviewCount = nullish (ip_reviewCount ins) 0,
       p_categories = Some (nullish (ip_categories ins) []),
       p_portfolio = nullish (ip_portfolio ins) [],
       p_certifications = nullish (ip_certifications ins) [],
       p_yearsExperience = ip_yearsExperience ins,
       p_profileImage = ip_profileImage ins,
       p_availability = ip_availability ins,
       p_serviceRadius = ip_serviceRadius ins,
       p_createdAt = now \<rparr>"

definition providerCategories_row :: "string \<Rightarrow> insertProviderCategory \<Rightarrow> providerCategory" where
  "providerCategories_row newId ins =
     \<lparr> pc_id = newId, pc_providerId = ipc_providerId ins,
       pc_categoryId = ipc_categoryId ins \<rparr>"

definition bookings_row :: "string \<Rightarrow> nat \<Rightarrow> insertBooking \<Rightarrow> booking" where
  "bookings_row newId now ins =
     \<lparr> b_id = newId, b_customerId = ib_customerId ins, b_providerId = ib_providerId ins,
       b_status = nullish (ib_status ins) ''pending'',
       b_estimatedDuration = ib_estimatedDuration ins,
       b_estimatedCost = ib_estimatedCost ins, b_actualCost = ib_actualCost ins,
       b_notes = ib_notes ins, b_createdAt = now \<rparr>"

definition reviews_row :: "string \<Rightarrow> nat \<Rightarrow> insertReview \<Rightarrow> review" where
  "reviews_row newId now ins =
     \<lparr> r_id = newId, r_providerId = ir_providerId ins, r_customerId = ir_customerId ins,
       r_bookingId = ir_bookingId ins, r_rating = ir_rating ins,
       r_comment = ir_comment ins, r_isVisible = nullish (ir_isVisible ins) True,
       r_createdAt = now \<rparr>"

subsection \<open>Users and service categories\<close>

definition DbStorage_getUser :: "string \<Rightarrow> database \<Rightarrow> user option" where
  "DbStorage_getUser ident db = first_row (select_where (\<lambda>u. u_id u = ident) (db_users db))"

definition DbStorage_getUserByEmail :: "string \<Rightarrow> database \<Rightarrow> user option" where
  "DbStorage_getUserByEmail email db =
     first_row (select_where (\<lambda>u. u_email u = email) (db_users db))"

definition DbStorage_getAllUsers :: "database \<Rightarrow> user list" where
  "DbStorage_getAllUsers db = db_users db"

definition DbStorage_createUser ::
  "string \<Rightarrow> nat \<Rightarrow> insertUser \<Rightarrow> database \<Rightarrow> user \<times> database" where
  "DbStorage_createUser newId now ins db =
     (let row = users_row newId now ins
      in (row, db\<lparr>db_users := db_users db @ [row]\<rparr>))"

definition DbStorage_updateUser ::
  "string \<Rightarrow> userUpdates \<Rightarrow> database \<Rightarrow> db_error + (user option \<times> database)" where
  "DbStorage_updateUser ident updates db =
     (if \<not> userUpdates_defined updates then Inl NoValuesToSet
      else
        (let (result, t) =
               update_where_returning (\<lambda>u. spread_user u updates) (\<lambda>u. u_id u = ident)
                 (db_users db)
         in Inr (first_row result, db\<lparr>db_users := t\<rparr>)))"

definition DbStorage_getServiceCategories :: "database \<Rightarrow> serviceCategory list" where
  "DbStorage_getServiceCategories db = db_serviceCategories db"

definition DbStorage_createServiceCategory ::
  "string \<Rightarrow> insertServiceCategory \<Rightarrow> database \<Rightarrow> serviceCategory \<times> database" where
  "DbStorage_createServiceCategory newId ins db =
     (let row = serviceCategories_row newId ins
      in (row, db\<lparr>db_serviceCategories := db_serviceCategories db @ [row]\<rparr>))"

subsection \<open>Providers\<close>

text \<open>
  The SQL operator \<^verbatim>\<open>LIKE\<close> belongs to the database; it is the argument \<open>like\<close>, applied
  to the column's value and the pattern \<^verbatim>\<open>%location%\<close>.
\<close>

definition DbStorage_getProvider :: "string \<Rightarrow> database \<Rightarrow> provider option" where
  "DbStorage_getProvider ident db =
     first_row (select_where (\<lambda>p. p_id p = ident) (db_providers db))"

definition DbStorage_getProviderByUserId :: "string \<Rightarrow> database \<Rightarrow> provider option" where
  "DbStorage_getProviderByUserId userId db =
     first_row (select_where (\<lambda>p. p_userId p = userId) (db_providers db))"

definition DbStorage_getProviders ::
  "(string \<Rightarrow> string \<Rightarrow> bool) \<Rightarrow> providerFilters option \<Rightarrow> database \<Rightarrow> provider list" where
  "DbStorage_getProviders like filters db =
     (let conditions =
            (case Option.bind filters pf_isApproved of
               None \<Rightarrow> []
             | Some a \<Rightarrow> [\<lambda>p. p_isApproved p = a])
            @ (case Option.bind filters pf_location of
                 None \<Rightarrow> []
               | Some loc \<Rightarrow>
                   if truthy (Some loc)
                   then [\<lambda>p. like (p_location p) (''%'' @ loc @ ''%'')]
                   else []);
          allProviders =
            (if length conditions > 0
             then select_where (\<lambda>p. list_all (\<lambda>c. c p) conditions) (db_providers db)
             else db_providers db)
      in case Option.bind filters pf_categoryId of
           None \<Rightarrow> allProviders
         | Some cat \<Rightarrow>
             if truthy (Some cat)
             then filter (\<lambda>p. case p_categories p of
                                 None \<Rightarrow> False
                               | Some cs \<Rightarrow> cat \<in> set cs)
                    allProviders
             else allProviders)"

definition DbStorage_createProvider ::
  "string \<Rightarrow> nat \<Rightarrow> insertProvider \<Rightarrow> database \<Rightarrow> provider \<times> database" where
  "DbStorage_createProvider newId now ins db =
     (let row = providers_row newId now ins
      in (row, db\<lparr>db_providers := db_providers db @ [row]\<rparr>))"

definition DbStorage_updateProvider ::
  "string \<Rightarrow> providerUpdates \<Rightarrow> database \<Rightarrow> db_error + (provider option \<times> database)" where
  "DbStorage_updateProvider ident updates db =
     (if \<not> providerUpdates_defined updates then Inl NoValuesToSet
      else
        (let (result, t) =
               update_where_returning (\<lambda>p. spread_provider p updates) (\<lambda>p. p_id p = ident)
                 (db_providers db)
         in Inr (first_row result, db\<lparr>db_providers := t\<rparr>)))"

subsection \<open>Provider categories, bookings and reviews\<close>

definition DbStorage_getProviderCategories :: "string \<Rightarrow> database \<Rightarrow> providerCategory list" where
  "DbStorage_getProviderCategories providerId db =
     select_where (\<lambda>pc. pc_providerId pc = providerId) (db_providerCategories db)"

definition DbStorage_createProviderCategory ::
  "string \<Rightarrow> insertProviderCategory \<Rightarrow> database \<Rightarrow> providerCategory \<times> database" where
  "DbStorage_createProviderCategory newId ins db =
     (let row = providerCategories_row newId ins
      in (row, db\<lparr>db_providerCategories := db_providerCategories db @ [row]\<rparr>))"

definition DbStorage_getBooking :: "string \<Rightarrow> database \<Rightarrow> booking option" where
  "DbStorage_getBooking ident db =
     first_row (select_where (\<lambda>b. b_id b = ident) (db_bookings db))"

definition DbStorage_getBookings :: "bookingFilters option \<Rightarrow> database \<Rightarrow> booking list" where
  "DbStorage_getBookings filters db =
     (let conditions =
            (case Option.bind filters bf_customerId of
               None \<Rightarrow> []
             | Some c \<Rightarrow> if truthy (Some c) then [\<lambda>b. b_customerId b = c] else [])
            @ (case Option.bind filters bf_providerId of
                 None \<Rightarrow> []
               | Some p \<Rightarrow> if truthy (Some p) then [\<lambda>b. b_providerId b = p] else [])
            @ (case Option.bind filters bf_status of
                 None \<Rightarrow> []
               | Some s \<Rightarrow> if truthy (Some s) then [\<lambda>b. b_status b = s] else [])
      in if length conditions > 0
         then select_where (\<lambda>b. list_all (\<lambda>c. c b) conditions) (db_bookings db)
         else db_bookings db)"

definition DbStorage_createBooking ::
  "string \<Rightarrow> nat \<Rightarrow> insertBooking \<Rightarrow> database \<Rightarrow> booking \<times> database" where
  "DbStorage_createBooking newId now ins db =
     (let row = bookings_row newId now ins
      in (row, db\<lparr>db_bookings := db_bookings db @ [row]\<rparr>))"

definition DbStorage_updateBooking ::
  "string \<Rightarrow> bookingUpdates \<Rightarrow> database \<Rightarrow> db_error + (booking option \<times> database)" where
  "DbStorage_updateBooking ident updates db =
     (if \<not> bookingUpdates_defined updates then Inl NoValuesToSet
      else
        (let (result, t) =
               update_where_returning (\<lambda>b. spread_booking b updates) (\<lambda>b. b_id b = ident)
                 (db_bookings db)
         in Inr (first_row result, db\<lparr>db_bookings := t\<rparr>)))"

definition DbStorage_getReviews :: "string \<Rightarrow> database \<Rightarrow> review list" where
  "DbStorage_getReviews providerId db =
     select_where (\<lambda>r. r_providerId r = providerId) (db_reviews db)"

definition DbStorage_createReview ::
  "string \<Rightarrow> nat \<Rightarrow> insertReview \<Rightarrow> database \<Rightarrow> review \<times> database" where
  "DbStorage_createReview newId now ins db =
     (let row = reviews_row newId now ins
      in (row, db\<lparr>db_reviews := db_reviews db @ [row]\<rparr>))"

definition DbStorage_updateReview ::
  "string \<Rightarrow> reviewUpdates \<Rightarrow> database \<Rightarrow> db_error + (review option \<times> database)" where
  "DbStorage_updateReview ident updates db =
     (if \<not> reviewUpdates_defined updates then Inl NoValuesToSet
      else
        (let (result, t) =
               update_where_returning (\<lambda>r. spread_review r updates) (\<lambda>r. r_id r = ident)
                 (db_reviews db)
         in Inr (first_row result, db\<lparr>db_reviews := t\<rparr>)))"

definition DbStorage_deleteReview :: "string \<Rightarrow> database \<Rightarrow> bool \<times> database" where
  "DbStorage_deleteReview ident db =
     (let (result, t) = delete_where_returning (\<lambda>r. r_id r = ident) (db_reviews db)
      in (length result > 0, db\<lparr>db_reviews := t\<rparr>))"


section \<open>Seeding\<close>

text \<open>
  What a run of \<^verbatim>\<open>initializeSeedData\<close> draws from outside: the identifier and the
  time of its \<open>k\<close>-th \<^verbatim>\<open>create\<close> call, and the \<open>k\<close>-th \<^verbatim>\<open>bcrypt.hash\<close>.
\<close>

record env =
  randomUUID :: "nat \<Rightarrow> string"
  date_now :: "nat \<Rightarrow> nat"
  bcrypt_hash :: "nat \<Rightarrow> string \<Rightarrow> string"

text \<open>The array \<^verbatim>\<open>categories\<close>, the same literal in both classes.\<close>

definition seed_categories :: "insertServiceCategory list" where
  "seed_categories =
     [ \<lparr> isc_name = ''Electrical'', isc_description = Some ''Wiring, repairs, installations'',
         isc_icon = ''zap'', isc_color = ''blue'' \<rparr>,
       \<lparr> isc_name = ''Plumbing'', isc_description = Some ''Pipes, fixtures, emergency repairs'',
         isc_icon = ''wrench'', isc_color = ''green'' \<rparr>,
       \<lparr> isc_name = ''Carpentry'', isc_description = Some ''Custom work, repairs, installations'',
         isc_icon = ''hammer'', isc_color = ''amber'' \<rparr>,
       \<lparr> isc_name = ''HVAC'', isc_description = Some ''Heating, cooling, ventilation'',
         isc_icon = ''thermometer'', isc_color = ''purple'' \<rparr>,
       \<lparr> isc_name = ''General Contracting'',
         isc_description = Some ''Home improvements, renovations'',
         isc_icon = ''building'', isc_color = ''red'' \<rparr>,
       \<lparr> isc_name = ''Landscaping'', isc_description = Some ''Garden design, lawn care'',
         isc_icon = ''leaf'', isc_color = ''teal'' \<rparr>,
       \<lparr> isc_name = ''Painting'', isc_description = Some ''Interior, exterior, touch-ups'',
         isc_icon = ''paintbrush'', isc_color = ''orange'' \<rparr>,
       \<lparr> isc_name = ''Cleaning Services'',
         isc_description = Some ''House cleaning, deep cleaning'',
         isc_icon = ''spray'', isc_color = ''gray'' \<rparr> ]"

definition admin_user :: "env \<Rightarrow> insertUser" where
  "admin_user e =
     \<lparr> iu_email = ''admin@localfix.com'', iu_password = bcrypt_hash e 0 ''admin123'',
       iu_firstName = ''Admin'', iu_lastName = ''User'', iu_role = Some Admin,
       iu_phone = None \<rparr>"

record sampleProvider =
  sp_email :: string
  sp_password :: string
  sp_firstName :: string
  sp_lastName :: string
  sp_role :: role
  sp_specialty :: string
  sp_location :: string
  sp_description :: string
  sp_hourlyRate :: string
  sp_isApproved :: bool
  sp_rating :: string
  sp_reviewCount :: int
  sp_categories :: "string list"

text \<open>\<^verbatim>\<open>cat ? [cat.id] : []\<close>\<close>

definition category_ids :: "serviceCategory option \<Rightarrow> string list" where
  "category_ids cat = (case cat of None \<Rightarrow> [] | Some c \<Rightarrow> [sc_id c])"

definition MemStorage_sampleProviders ::
  "env \<Rightarrow> serviceCategory option \<Rightarrow> serviceCategory option \<Rightarrow> serviceCategory option
     \<Rightarrow> sampleProvider list" where
  "MemStorage_sampleProviders e electricalCat plumbingCat carpentryCat =
     [ \<lparr> sp_email = ''mike@example.com'', sp_password = bcrypt_hash e 1 ''password123'',
         sp_firstName = ''Mike'', sp_lastName = ''Thompson'', sp_role = Provider,
         sp_specialty = ''Licensed Electrician'', sp_location = ''Downtown Area'',
         sp_description = ''15+ years experience in residential and commercial electrical work. Available for emergency calls.'',
         sp_hourlyRate = ''85.00'', sp_isApproved = True, sp_rating = ''4.9'',
         sp_reviewCount = 127, sp_categories = category_ids electricalCat \<rparr>,
       \<lparr> sp_email = ''sarah@example.com'', sp_password = bcrypt_hash e 2 ''password123'',
         sp_firstName = ''Sarah'', sp_lastName = ''Martinez'', sp_role = Provider,
         sp_specialty = ''Master Plumber'', sp_location = ''North Side'',
         sp_description = ''Specializing in emergency repairs, fixture installations, and water heater services. Fast response time.'',
         sp_hourlyRate = ''95.00'', sp_isApproved = True, sp_rating = ''4.8'',
         sp_reviewCount = 94, sp_categories = category_ids plumbingCat \<rparr>,
       \<lparr> sp_email = ''david@example.com'', sp_password = bcrypt_hash e 3 ''password123'',
         sp_firstName = ''David'', sp_lastName = ''Chen'', sp_role = Provider,
         sp_specialty = ''Custom Carpenter'', sp_location = ''West End'',
         sp_description = ''Custom furniture, cabinetry, and home improvements. Meticulous attention to detail and craftsmanship.'',
         sp_hourlyRate = ''75.00'', sp_isApproved = True, sp_rating = ''5.0'',
         sp_reviewCount = 73, sp_categories = category_ids carpentryCat \<rparr> ]"

definition DbStorage_sampleProviders ::
  "env \<Rightarrow> serviceCategory option \<Rightarrow> serviceCategory option \<Rightarrow> serviceCategory option
     \<Rightarrow> sampleProvider list" where
  "DbStorage_sampleProviders e electricalCat plumbingCat carpentryCat =
     [ \<lparr> sp_email = ''mike@example.com'', sp_password = bcrypt_hash e 1 ''password123'',
         sp_firstName = ''Mike'', sp_lastName = ''Thompson'', sp_role = Provider,
         sp_specialty = ''Licensed Electrician'', sp_location = ''Downtown Area'',
         sp_description = ''15+ years experience in residential and commercial electrical work. Available for emergency calls.'',
         sp_hourlyRate = ''85.00'', sp_isApproved = True, sp_rating = ''4.9'',
         sp_reviewCount = 127, sp_categories = category_ids electricalCat \<rparr>,
       \<lparr> sp_email = ''sarah@example.com'', sp_password = bcrypt_hash e 2 ''password123'',
         sp_firstName = ''Sarah'', sp_lastName = ''Martinez'', sp_role = Provider,
         sp_specialty = ''Master Plumber'', sp_location = ''North Side'',
         sp_description = ''Specializing in emergency repairs, fixture installations, and water heater services. Fast response time.'',
         sp_hourlyRate = ''95.00'', sp_isApproved = True, sp_rating = ''4.8'',
         sp_reviewCount = 93, sp_categories = category_ids plumbingCat \<rparr>,
       \<lparr> sp_email = ''david@example.com'', sp_password = bcrypt_hash e 3 ''password123'',
         sp_firstName = ''David'', sp_lastName = ''Chen'', sp_role = Provider,
         sp_specialty = ''Master Carpenter'', sp_location = ''West End'',
         sp_description = ''Custom furniture, deck building, and general carpentry. Quality craftsmanship guaranteed.'',
         sp_hourlyRate = ''75.00'', sp_isApproved = True, sp_rating = ''5.0'',
         sp_reviewCount = 45, sp_categories = category_ids carpentryCat \<rparr> ]"

text \<open>The user that both loops create for a sample provider.\<close>

definition sample_user :: "sampleProvider \<Rightarrow> insertUser" where
  "sample_user d =
     \<lparr> iu_email = sp_email d, iu_password = sp_password d, iu_firstName = sp_firstName d,
       iu_lastName = sp_lastName d, iu_role = Some (sp_role d), iu_phone = None \<rparr>"

subsection \<open>MemStorage.initializeSeedData\<close>

fun MemStorage_seedCategories ::
  "env \<Rightarrow> nat \<Rightarrow> insertServiceCategory list \<Rightarrow> memStorage \<Rightarrow> memStorage" where
  "MemStorage_seedCategories e k [] st = st"
| "MemStorage_seedCategories e k (cat # cats) st =
     MemStorage_seedCategories e (Suc k) cats
       (snd (MemStorage_createServiceCategory (randomUUID e k) cat st))"

fun MemStorage_seedProviders ::
  "env \<Rightarrow> nat \<Rightarrow> sampleProvider list \<Rightarrow> memStorage \<Rightarrow> memStorage" where
  "MemStorage_seedProviders e k [] st = st"
| "MemStorage_seedProviders e k (providerData # rest) st =
     (let (usr, st1) =
            MemStorage_createUser (randomUUID e k) (date_now e k) (sample_user providerData) st;
          (_, st2) =
            MemStorage_createProvider (randomUUID e (k + 1)) (date_now e (k + 1))
              \<lparr> ip_userId = u_id usr,
                ip_specialty = sp_specialty providerData,
                ip_location = Some (sp_location providerData),
                ip_description = Some (sp_description providerData),
                ip_isApproved = Some (sp_isApproved providerData),
                ip_isAvailable = None,
                ip_businessName = None,
                ip_serviceRadius = None,
                ip_hourlyRate = Some (sp_hourlyRate providerData),
                ip_rating = None,
                ip_reviewCount = None,
                ip_categories = Some (sp_categories providerData),
                ip_availability = None,
                ip_profileImage = None,
                ip_portfolio = None,
                ip_certifications = None,
                ip_yearsExperience = None \<rparr>
              st1
      in MemStorage_seedProviders e (k + 2) rest st2)"

definition MemStorage_initializeSeedData :: "env \<Rightarrow> memStorage \<Rightarrow> memStorage" where
  "MemStorage_initializeSeedData e st0 =
     (let st1 = MemStorage_seedCategories e 0 seed_categories st0;
          (_, st2) = MemStorage_createUser (randomUUID e 8) (date_now e 8) (admin_user e) st1;
          electricalCat =
            find (\<lambda>c. sc_name c = ''Electrical'') (jsmap_values (serviceCategories st2));
          plumbingCat =
            find (\<lambda>c. sc_name c = ''Plumbing'') (jsmap_values (serviceCategories st2));
          carpentryCat =
            find (\<lambda>c. sc_name c = ''Carpentry'') (jsmap_values (serviceCategories st2))
      in MemStorage_seedProviders e 9
           (MemStorage_sampleProviders e electricalCat plumbingCat carpentryCat) st2)"

text \<open>The constructor: the six empty maps, then the seed.\<close>

definition MemStorage_new :: "env \<Rightarrow> memStorage" where
  "MemStorage_new e = MemStorage_initializeSeedData e MemStorage_empty"

subsection \<open>DbStorage.initializeSeedData\<close>

fun DbStorage_seedCategories ::
  "env \<Rightarrow> nat \<Rightarrow> insertServiceCategory list \<Rightarrow> database \<Rightarrow> database" where
  "DbStorage_seedCategories e k [] db = db"
| "DbStorage_seedCategories e k (cat # cats) db =
     DbStorage_seedCategories e (Suc k) cats
       (snd (DbStorage_createServiceCategory (randomUUID e k) cat db))"

fun DbStorage_seedProviders ::
  "env \<Rightarrow> nat \<Rightarrow> sampleProvider list \<Rightarrow> database \<Rightarrow> db_error + database" where
  "DbStorage_seedProviders e k [] db = Inr db"
| "DbStorage_seedProviders e k (providerData # rest) db =
     (let (usr, db1) =
            DbStorage_createUser (randomUUID e k) (date_now e k) (sample_user providerData) db;
          (prov, db2) =
            DbStorage_createProvider (randomUUID e (k + 1)) (date_now e (k + 1))
              \<lparr> ip_userId = u_id usr,
                ip_specialty = sp_specialty providerData,
                ip_location = Some (sp_location providerData),
                ip_description = Some (sp_description providerData),
                ip_isApproved = Some (sp_isApproved providerData),
                ip_isAvailable = None,
                ip_businessName =
                  Some (sp_firstName providerData @ [CHR 0x27] @ ''s ''
                        @ sp_specialty providerData),
                ip_serviceRadius = None,
                ip_hourlyRate = Some (sp_hourlyRate providerData),
                ip_rating = None,
                ip_reviewCount = None,
                ip_categories = Some (sp_categories providerData),
                ip_availability = None,
                ip_profileImage = None,
                ip_portfolio = None,
                ip_certifications = None,
                ip_yearsExperience = None \<rparr>
              db1
      in case DbStorage_updateProvider (p_id prov)
                \<lparr> pu_id = None, pu_userId = None, pu_specialty = None, pu_businessName = None,
                  pu_location = None, pu_description = None, pu_hourlyRate = None,
                  pu_isApproved = None, pu_isAvailable = None,
                  pu_rating = Some (sp_rating providerData),
                  pu_reviewCount = Some (sp_reviewCount providerData),
                  pu_categories = None, pu_portfolio = None, pu_certifications = None,
                  pu_yearsExperience = None, pu_profileImage = None, pu_availability = None,
                  pu_serviceRadius = None, pu_createdAt = None \<rparr>
                db2 of
           Inl err \<Rightarrow> Inl err
         | Inr (_, db3) \<Rightarrow> DbStorage_seedProviders e (k + 2) rest db3)"

definition DbStorage_initializeSeedData :: "env \<Rightarrow> database \<Rightarrow> db_error + database" where
  "DbStorage_initializeSeedData e db0 =
     (let existingCategories = db_serviceCategories db0
      in if length existingCategories > 0 then Inr db0
         else
           (let db1 = DbStorage_seedCategories e 0 seed_categories db0;
                (_, db2) =
                  DbStorage_createUser (randomUUID e 8) (date_now e 8) (admin_user e) db1;
                allCategories = db_serviceCategories db2;
                electricalCat = find (\<lambda>c. sc_name c = ''Electrical'') allCategories;
                plumbingCat = find (\<lambda>c. sc_name c = ''Plumbing'') allCategories;
                carpentryCat = find (\<lambda>c. sc_name c = ''Carpentry'') allCategories
            in DbStorage_seedProviders e 9
                 (DbStorage_sampleProviders e electricalCat plumbingCat carpentryCat) db2))"

section \<open>Notions of the specification\<close>

text \<open>
  A case-insensitive substring match, by the library's notion of a contiguous sublist:
  the needle occurs in the string once both are lower-cased.
\<close>

definition ci_substring :: "(string \<Rightarrow> string) \<Rightarrow> string \<Rightarrow> string \<Rightarrow> bool" where
  "ci_substring toLowerCase needle s = sublist (toLowerCase needle) (toLowerCase s)"


text \<open>The same conjunction, with an empty \<open>categoryId\<close> counted as not supplied.\<close>

definition provider_matches ::
  "(string \<Rightarrow> string) \<Rightarrow> providerFilters \<Rightarrow> 'a provider_scheme \<Rightarrow> bool" where
  "provider_matches toLowerCase f p =
     ((case pf_isApproved f of None \<Rightarrow> True | Some a \<Rightarrow> p_isApproved p = a)
      \<and> (case pf_location f of None \<Rightarrow> True | Some loc \<Rightarrow> ci_substring toLowerCase loc (p_location p))
      \<and> (case pf_categoryId f of
            None \<Rightarrow> True
          | Some cat \<Rightarrow>
              cat = [] \<or> (case p_categories p of None \<Rightarrow> False | Some cs \<Rightarrow> cat \<in> set cs)))"

text \<open>The summary of the user a provider links to, or \<^verbatim>\<open>null\<close> when there is none.\<close>

definition linked_user :: "memStorage \<Rightarrow> 'a provider_scheme \<Rightarrow> userSummary option" where
  "linked_user st p =
     map_option
       (\<lambda>u. \<lparr> us_id = u_id u, us_firstName = u_firstName u, us_lastName = u_lastName u,
               us_email = u_email u \<rparr>)
       (jsmap_get (users st) (p_userId p))"

definition attach_user :: "memStorage \<Rightarrow> provider \<Rightarrow> providerWithUser" where
  "attach_user st p = with_user p (linked_user st p)"

text \<open>A decimal-formatted string: digits, then possibly a point and more digits.\<close>

definition is_digit :: "char \<Rightarrow> bool" where
  "is_digit c = (c \<in> set ''0123456789'')"

definition is_decimal_string :: "string \<Rightarrow> bool" where
  "is_decimal_string s =
     (takeWhile is_digit s \<noteq> []
      \<and> (case dropWhile is_digit s of
            [] \<Rightarrow> True
          | c # frac \<Rightarrow> c = CHR ''.'' \<and> frac \<noteq> [] \<and> list_all is_digit frac))"

section \<open>Example stores\<close>

text \<open>The update object \<^verbatim>\<open>{}\<close> of each entity.\<close>

definition no_userUpdates :: userUpdates where
  "no_userUpdates =
     \<lparr> uu_id = None, uu_email = None, uu_password = None, uu_firstName = None,
       uu_lastName = None, uu_role = None, uu_phone = None, uu_createdAt = None \<rparr>"

definition no_providerUpdates :: providerUpdates where
  "no_providerUpdates =
     \<lparr> pu_id = None, pu_userId = None, pu_specialty = None, pu_businessName = None,
       pu_location = None, pu_description = None, pu_hourlyRate = None,
       pu_isApproved = None, pu_isAvailable = None, pu_rating = None,
       pu_reviewCount = None, pu_categories = None, pu_portfolio = None,
       pu_certifications = None, pu_yearsExperience = None, pu_profileImage = None,
       pu_availability = None, pu_serviceRadius = None, pu_createdAt = None \<rparr>"

definition no_bookingUpdates :: bookingUpdates where
  "no_bookingUpdates =
     \<lparr> bu_id = None, bu_customerId = None, bu_providerId = None, bu_status = None,
       bu_estimatedDuration = None, bu_estimatedCost = None, bu_actualCost = None,
       bu_notes = None, bu_createdAt = None \<rparr>"

definition no_reviewUpdates :: reviewUpdates where
  "no_reviewUpdates =
     \<lparr> ru_id = None, ru_providerId = None, ru_customerId = None, ru_bookingId = None,
       ru_rating = None, ru_comment = None, ru_isVisible = None, ru_createdAt = None \<rparr>"

definition ex_insertUser :: insertUser where
  "ex_insertUser =
     \<lparr> iu_email = ''ann@example.com'', iu_password = ''secret'', iu_firstName = ''Ann'',
       iu_lastName = ''Lee'', iu_role = None, iu_phone = None \<rparr>"

definition ex_insertProvider ::
  "string \<Rightarrow> string \<Rightarrow> bool option \<Rightarrow> string list \<Rightarrow> insertProvider" where
  "ex_insertProvider uid loc approved cats =
     \<lparr> ip_userId = uid, ip_specialty = ''Plumber'', ip_location = Some loc,
       ip_description = None, ip_isApproved = approved, ip_isAvailable = None,
       ip_businessName = None, ip_serviceRadius = None, ip_hourlyRate = None,
       ip_rating = None, ip_reviewCount = None, ip_categories = Some cats,
       ip_availability = None, ip_profileImage = None, ip_portfolio = None,
       ip_certifications = None, ip_yearsExperience = None \<rparr>"

definition ex_insertBooking :: insertBooking where
  "ex_insertBooking =
     \<lparr> ib_customerId = ''u1'', ib_providerId = ''p1'', ib_status = None,
       ib_estimatedDuration = None, ib_estimatedCost = None, ib_actualCost = None,
       ib_notes = None \<rparr>"

definition ex_insertReview :: "bool option \<Rightarrow> insertReview" where
  "ex_insertReview visible =
     \<lparr> ir_providerId = ''p1'', ir_customerId = ''u1'', ir_bookingId = ''b1'', ir_rating = 5,
       ir_comment = None, ir_isVisible = visible \<rparr>"

text \<open>
  A store reached through the methods alone: user \<open>u1\<close>; provider \<open>p1\<close> of \<open>u1\<close>,
  approved, in category \<open>c1\<close>; provider \<open>p2\<close> of a user \<open>u9\<close> that does not exist, in
  category \<open>c2\<close>; booking \<open>b1\<close>; review \<open>r1\<close>, hidden, and review \<open>r2\<close>, both of \<open>p1\<close>.
\<close>

definition ex_mem :: memStorage where
  "ex_mem =
     snd (MemStorage_createReview ''r2'' 6 (ex_insertReview None)
     (snd (MemStorage_createReview ''r1'' 5 (ex_insertReview (Some False))
     (snd (MemStorage_createBooking ''b1'' 4 ex_insertBooking
     (snd (MemStorage_createProvider ''p2'' 3 (ex_insertProvider ''u9'' ''West End'' None [''c2''])
     (snd (MemStorage_createProvider ''p1'' 2
             (ex_insertProvider ''u1'' ''North Side'' (Some True) [''c1''])
     (snd (MemStorage_createUser ''u1'' 1 ex_insertUser MemStorage_empty)))))))))))"

definition ex_db :: database where
  "ex_db =
     snd (DbStorage_createReview ''r2'' 6 (ex_insertReview None)
     (snd (DbStorage_createReview ''r1'' 5 (ex_insertReview (Some False))
     (snd (DbStorage_createBooking ''b1'' 4 ex_insertBooking
     (snd (DbStorage_createProvider ''p2'' 3 (ex_insertProvider ''u9'' ''West End'' None [''c2''])
     (snd (DbStorage_createProvider ''p1'' 2
             (ex_insertProvider ''u1'' ''North Side'' (Some True) [''c1''])
     (snd (DbStorage_createUser ''u1'' 1 ex_insertUser database_empty)))))))))))"

text \<open>
  On a string of ASCII characters \<^verbatim>\<open>toLowerCase\<close> maps the letters \<open>A\<close> to \<open>Z\<close> to \<open>a\<close>
  to \<open>z\<close> and keeps every other character. The examples, whose strings are all ASCII,
  are evaluated with the function that does so.
\<close>

definition ascii_toLowerCase :: "string \<Rightarrow> string" where
  "ascii_toLowerCase s =
     map (\<lambda>c. case map_of (zip ''ABCDEFGHIJKLMNOPQRSTUVWXYZ'' ''abcdefghijklmnopqrstuvwxyz'') c of
                None \<Rightarrow> c
              | Some l \<Rightarrow> l) s"

definition ex_env :: env where
  "ex_env =
     \<lparr> randomUUID = (\<lambda>k. replicate (Suc k) CHR ''u''),
       date_now = (\<lambda>k. 1000 + k),
       bcrypt_hash = (\<lambda>k pw. replicate k CHR ''$'' @ pw) \<rparr>"


section \<open>Facts about maps, tables and the examples\<close>

lemmas example_defs =
  ex_mem_def ex_db_def ex_insertUser_def ex_insertProvider_def ex_insertBooking_def
  ex_insertReview_def MemStorage_empty_def database_empty_def ascii_toLowerCase_def

lemmas mem_eval =
  MemStorage_createReview_def MemStorage_createBooking_def MemStorage_createProvider_def
  MemStorage_createUser_def nullish_def jsmap_values_def jsmap_get_def jsmap_has_def
  jsmap_delete_def jsmap_keys_def Let_def

lemmas db_eval =
  DbStorage_createReview_def DbStorage_createBooking_def DbStorage_createProvider_def
  DbStorage_createUser_def users_row_def providers_row_def bookings_row_def reviews_row_def nullish_def select_where_def
  update_where_returning_def delete_where_returning_def first_row_def Let_def

lemma jsmap_get_set:
  "jsmap_get (jsmap_set k v m) j = (if j = k then Some v else jsmap_get m j)"
  by (induction m) (auto simp: jsmap_get_def)

lemma jsmap_keys_set:
  "jsmap_keys (jsmap_set k v m) = (if jsmap_has m k then jsmap_keys m else jsmap_keys m @ [k])"
  by (induction m) (auto simp: jsmap_keys_def jsmap_has_def)

lemma jsmap_set_distinct:
  "distinct (jsmap_keys m) \<Longrightarrow> distinct (jsmap_keys (jsmap_set k v m))"
proof (cases "jsmap_has m k")
  case True
  then show "distinct (jsmap_keys m) \<Longrightarrow> distinct (jsmap_keys (jsmap_set k v m))"
    by (simp add: jsmap_keys_set)
next
  case False
  then have "k \<notin> set (jsmap_keys m)"
    by (simp add: jsmap_has_def jsmap_keys_def map_of_eq_None_iff)
  with False show "distinct (jsmap_keys m) \<Longrightarrow> distinct (jsmap_keys (jsmap_set k v m))"
    by (simp add: jsmap_keys_set)
qed

lemma jsmap_keys_set_present:
  "jsmap_get m k = Some w \<Longrightarrow> jsmap_keys (jsmap_set k v m) = jsmap_keys m"
  by (induction m) (auto simp: jsmap_get_def jsmap_keys_def split: if_splits)

lemma jsmap_delete_get:
  "jsmap_get (snd (jsmap_delete k m)) j = (if j = k then None else jsmap_get m j)"
  by (induction m) (auto simp: jsmap_delete_def jsmap_get_def)

lemma jsmap_delete_absent: "\<not> jsmap_has m k \<Longrightarrow> snd (jsmap_delete k m) = m"
  by (induction m) (auto simp: jsmap_delete_def jsmap_has_def split: if_splits)

lemma jsmap_has_delete: "\<not> jsmap_has (snd (jsmap_delete k m)) k"
  using jsmap_delete_get[of k m k] by (simp add: jsmap_has_def jsmap_get_def)

lemma update_where_none:
  "\<forall>r \<in> set t. \<not> c r \<Longrightarrow> update_where_returning f c t = ([], t)"
  by (induction t) (auto simp: update_where_returning_def)

section \<open>Review listing\<close>

lemma MemStorage_getReviews_visible:
  "r \<in> set (MemStorage_getReviews providerId st) \<Longrightarrow> r_providerId r = providerId \<and> r_isVisible r"
  by (simp add: MemStorage_getReviews_def)

lemma DbStorage_getReviews_provider:
  "r \<in> set (DbStorage_getReviews providerId db) \<Longrightarrow> r_providerId r = providerId"
  by (simp add: DbStorage_getReviews_def select_where_def)

text \<open>
  C1. The claim: in both backends \<open>getReviews(providerId)\<close> returns only reviews of that
  provider whose \<open>isVisible\<close> is true. \<open>MemStorage.getReviews\<close> does
  (\<open>MemStorage_getReviews_visible\<close>); \<open>DbStorage.getReviews\<close> selects by provider alone.
  In the example database, where review \<open>r1\<close> of provider \<open>p1\<close> was created hidden,
  \<open>DbStorage.getReviews("p1")\<close> returns \<open>r1\<close> with \<open>isVisible = false\<close>, before the visible
  review \<open>r2\<close>.
\<close>

theorem DbStorage_getReviews_returns_hidden:
  "map (\<lambda>r. (r_id r, r_providerId r, r_isVisible r)) (DbStorage_getReviews ''p1'' ex_db)
     = [(''r1'', ''p1'', False), (''r2'', ''p1'', True)]"
  by (simp add: example_defs db_eval DbStorage_getReviews_def)

section \<open>Deleting a review\<close>

lemma MemStorage_deleteReview_fst:
  "fst (MemStorage_deleteReview i st) = jsmap_has (reviews st) i"
  by (simp add: MemStorage_deleteReview_def jsmap_delete_def)

lemma MemStorage_deleteReview_reviews:
  "reviews (snd (MemStorage_deleteReview i st)) = snd (jsmap_delete i (reviews st))"
  by (simp add: MemStorage_deleteReview_def jsmap_delete_def)

lemma MemStorage_deleteReview_absent:
  "\<not> jsmap_has (reviews st) i \<Longrightarrow> snd (MemStorage_deleteReview i st) = st"
  using jsmap_delete_absent[of "reviews st" i]
  by (simp add: MemStorage_deleteReview_def jsmap_delete_def)

lemma DbStorage_deleteReview_fst:
  "fst (DbStorage_deleteReview i db) = (\<exists>r \<in> set (db_reviews db). r_id r = i)"
  by (auto simp: DbStorage_deleteReview_def delete_where_returning_def filter_empty_conv)

lemma DbStorage_deleteReview_reviews:
  "db_reviews (snd (DbStorage_deleteReview i db)) = filter (\<lambda>r. r_id r \<noteq> i) (db_reviews db)"
  by (simp add: DbStorage_deleteReview_def delete_where_returning_def)

text \<open>
  C8. \<open>deleteReview(id)\<close> returns true exactly when a review with that id existed, and
  the review is then removed: in the volatile store the key \<open>id\<close> is gone and every other
  key keeps its review, and a store without the key is left as it was; in the durable
  store the rows with that id are gone and the others stay. A second call with the same
  id returns false, from any state, in both backends.
\<close>

theorem deleteReview_reports_existence:
  "fst (MemStorage_deleteReview i st) = jsmap_has (reviews st) i
   \<and> (\<forall>k. jsmap_get (reviews (snd (MemStorage_deleteReview i st))) k
           = (if k = i then None else jsmap_get (reviews st) k))
   \<and> (\<not> jsmap_has (reviews st) i \<longrightarrow> snd (MemStorage_deleteReview i st) = st)
   \<and> fst (MemStorage_deleteReview i (snd (MemStorage_deleteReview i st))) = False
   \<and> fst (DbStorage_deleteReview i db) = (\<exists>r \<in> set (db_reviews db). r_id r = i)
   \<and> db_reviews (snd (DbStorage_deleteReview i db))
       = filter (\<lambda>r. r_id r \<noteq> i) (db_reviews db)
   \<and> fst (DbStorage_deleteReview i (snd (DbStorage_deleteReview i db))) = False"
  by (simp add: MemStorage_deleteReview_fst MemStorage_deleteReview_reviews jsmap_delete_get
      jsmap_has_delete MemStorage_deleteReview_absent DbStorage_deleteReview_fst
      DbStorage_deleteReview_reviews)

theorem deleteReview_reports_existence_witness:
  "fst (MemStorage_deleteReview ''r1'' ex_mem) = True
   \<and> jsmap_keys (reviews (snd (MemStorage_deleteReview ''r1'' ex_mem))) = [''r2'']
   \<and> fst (MemStorage_deleteReview ''r1'' (snd (MemStorage_deleteReview ''r1'' ex_mem))) = False
   \<and> jsmap_has (reviews ex_mem) ''r7'' = False
   \<and> MemStorage_deleteReview ''r7'' ex_mem = (False, ex_mem)
   \<and> fst (DbStorage_deleteReview ''r1'' ex_db) = True
   \<and> map r_id (db_reviews (snd (DbStorage_deleteReview ''r1'' ex_db))) = [''r2'']
   \<and> fst (DbStorage_deleteReview ''r1'' (snd (DbStorage_deleteReview ''r1'' ex_db))) = False"
  using deleteReview_reports_existence[of "''r1''" ex_mem ex_db]
    deleteReview_reports_existence[of "''r7''" ex_mem ex_db]
  by (simp add: example_defs mem_eval db_eval MemStorage_deleteReview_def
      DbStorage_deleteReview_def)


section \<open>Updates\<close>

lemma MemStorage_updateUser_absent:
  "jsmap_get (users st) i = None \<Longrightarrow> MemStorage_updateUser i upd st = (None, st)"
  by (simp add: MemStorage_updateUser_def)

lemma MemStorage_updateProvider_absent:
  "jsmap_get (providers st) i = None \<Longrightarrow> MemStorage_updateProvider i upd st = (None, st)"
  by (simp add: MemStorage_updateProvider_def)

lemma MemStorage_updateBooking_absent:
  "jsmap_get (bookings st) i = None \<Longrightarrow> MemStorage_updateBooking i upd st = (None, st)"
  by (simp add: MemStorage_updateBooking_def)

lemma MemStorage_updateReview_absent:
  "jsmap_get (reviews st) i = None \<Longrightarrow> MemStorage_updateReview i upd st = (None, st)"
  by (simp add: MemStorage_updateReview_def)

lemma DbStorage_updateUser_absent:
  "userUpdates_defined upd \<Longrightarrow> \<forall>u \<in> set (db_users db). u_id u \<noteq> i
   \<Longrightarrow> DbStorage_updateUser i upd db = Inr (None, db)"
  by (simp add: DbStorage_updateUser_def update_where_none first_row_def)

lemma DbStorage_updateProvider_absent:
  "providerUpdates_defined upd \<Longrightarrow> \<forall>p \<in> set (db_providers db). p_id p \<noteq> i
   \<Longrightarrow> DbStorage_updateProvider i upd db = Inr (None, db)"
  by (simp add: DbStorage_updateProvider_def update_where_none first_row_def)

lemma DbStorage_updateBooking_absent:
  "bookingUpdates_defined upd \<Longrightarrow> \<forall>b \<in> set (db_bookings db). b_id b \<noteq> i
   \<Longrightarrow> DbStorage_updateBooking i upd db = Inr (None, db)"
  by (simp add: DbStorage_updateBooking_def update_where_none first_row_def)

lemma DbStorage_updateReview_absent:
  "reviewUpdates_defined upd \<Longrightarrow> \<forall>r \<in> set (db_reviews db). r_id r \<noteq> i
   \<Longrightarrow> DbStorage_updateReview i upd db = Inr (None, db)"
  by (simp add: DbStorage_updateReview_def update_where_none first_row_def)

lemma DbStorage_update_no_values:
  "\<not> userUpdates_defined uu \<Longrightarrow> DbStorage_updateUser i uu db = Inl NoValuesToSet"
  "\<not> providerUpdates_defined pu \<Longrightarrow> DbStorage_updateProvider i pu db = Inl NoValuesToSet"
  "\<not> bookingUpdates_defined bu \<Longrightarrow> DbStorage_updateBooking i bu db = Inl NoValuesToSet"
  "\<not> reviewUpdates_defined ru \<Longrightarrow> DbStorage_updateReview i ru db = Inl NoValuesToSet"
  by (simp_all add: DbStorage_updateUser_def DbStorage_updateProvider_def
      DbStorage_updateBooking_def DbStorage_updateReview_def)

text \<open>
  C7. The claim: each of \<open>updateUser\<close>, \<open>updateProvider\<close>, \<open>updateBooking\<close> and
  \<open>updateReview\<close>, called with an id that no record has, returns the absent value and
  leaves the store as it was. The four methods of \<open>MemStorage\<close> do, for every update
  object (\<open>MemStorage_updateUser_absent\<close> and the three lemmas after it). The four
  methods of \<open>DbStorage\<close> do when the update object has a value to set
  (\<open>DbStorage_updateUser_absent\<close> and the three lemmas after it); called with the update
  object \<open>{}\<close> they return nothing but throw \<open>No values to set\<close>
  (\<open>DbStorage_update_no_values\<close>). In the examples no record has the id \<open>zz\<close>: the
  volatile store answers \<open>{}\<close> with the absent value, the durable store with the error.
\<close>

theorem DbStorage_update_absent_id_throws:
  "map u_id (db_users ex_db) = [''u1'']
   \<and> DbStorage_updateUser ''zz'' no_userUpdates ex_db = Inl NoValuesToSet
   \<and> map p_id (db_providers ex_db) = [''p1'', ''p2'']
   \<and> DbStorage_updateProvider ''zz'' no_providerUpdates ex_db = Inl NoValuesToSet
   \<and> map b_id (db_bookings ex_db) = [''b1'']
   \<and> DbStorage_updateBooking ''zz'' no_bookingUpdates ex_db = Inl NoValuesToSet
   \<and> map r_id (db_reviews ex_db) = [''r1'', ''r2'']
   \<and> DbStorage_updateReview ''zz'' no_reviewUpdates ex_db = Inl NoValuesToSet
   \<and> MemStorage_updateUser ''zz'' no_userUpdates ex_mem = (None, ex_mem)
   \<and> MemStorage_updateProvider ''zz'' no_providerUpdates ex_mem = (None, ex_mem)
   \<and> MemStorage_updateBooking ''zz'' no_bookingUpdates ex_mem = (None, ex_mem)
   \<and> MemStorage_updateReview ''zz'' no_reviewUpdates ex_mem = (None, ex_mem)"
  by (simp add: example_defs mem_eval db_eval DbStorage_updateUser_def
      DbStorage_updateProvider_def DbStorage_updateBooking_def DbStorage_updateReview_def
      MemStorage_updateUser_def MemStorage_updateProvider_def MemStorage_updateBooking_def
      MemStorage_updateReview_def userUpdates_defined_def providerUpdates_defined_def
      bookingUpdates_defined_def reviewUpdates_defined_def no_userUpdates_def
      no_providerUpdates_def no_bookingUpdates_def no_reviewUpdates_def)

lemma MemStorage_updateUser_frame:
  "snd (MemStorage_updateUser i upd st)
     = st\<lparr>users := users (snd (MemStorage_updateUser i upd st))\<rparr>
   \<and> jsmap_keys (users (snd (MemStorage_updateUser i upd st))) = jsmap_keys (users st)
   \<and> (\<forall>k. k \<noteq> i \<longrightarrow>
          jsmap_get (users (snd (MemStorage_updateUser i upd st))) k = jsmap_get (users st) k)
   \<and> jsmap_get (users (snd (MemStorage_updateUser i upd st))) i
       = map_option (\<lambda>u. spread_user u upd) (jsmap_get (users st) i)
   \<and> fst (MemStorage_updateUser i upd st)
       = map_option (\<lambda>u. spread_user u upd) (jsmap_get (users st) i)"
  by (cases "jsmap_get (users st) i")
     (simp_all add: MemStorage_updateUser_def Let_def jsmap_get_set jsmap_keys_set_present)

lemma MemStorage_updateProvider_frame:
  "snd (MemStorage_updateProvider i upd st)
     = st\<lparr>providers := providers (snd (MemStorage_updateProvider i upd st))\<rparr>
   \<and> jsmap_keys (providers (snd (MemStorage_updateProvider i upd st)))
       = jsmap_keys (providers st)
   \<and> (\<forall>k. k \<noteq> i \<longrightarrow>
          jsmap_get (providers (snd (MemStorage_updateProvider i upd st))) k
            = jsmap_get (providers st) k)
   \<and> jsmap_get (providers (snd (MemStorage_updateProvider i upd st))) i
       = map_option (\<lambda>p. spread_provider p upd) (jsmap_get (providers st) i)
   \<and> fst (MemStorage_updateProvider i upd st)
       = map_option (\<lambda>p. spread_provider p upd) (jsmap_get (providers st) i)"
  by (cases "jsmap_get (providers st) i")
     (simp_all add: MemStorage_updateProvider_def Let_def jsmap_get_set jsmap_keys_set_present)

lemma MemStorage_updateBooking_frame:
  "snd (MemStorage_updateBooking i upd st)
     = st\<lparr>bookings := bookings (snd (MemStorage_updateBooking i upd st))\<rparr>
   \<and> jsmap_keys (bookings (snd (MemStorage_updateBooking i upd st)))
       = jsmap_keys (bookings st)
   \<and> (\<forall>k. k \<noteq> i \<longrightarrow>
          jsmap_get (bookings (snd (MemStorage_updateBooking i upd st))) k
            = jsmap_get (bookings st) k)
   \<and> jsmap_get (bookings (snd (MemStorage_updateBooking i upd st))) i
       = map_option (\<lambda>b. spread_booking b upd) (jsmap_get (bookings st) i)
   \<and> fst (MemStorage_updateBooking i upd st)
       = map_option (\<lambda>b. spread_booking b upd) (jsmap_get (bookings st) i)"
  by (cases "jsmap_get (bookings st) i")
     (simp_all add: MemStorage_updateBooking_def Let_def jsmap_get_set jsmap_keys_set_present)

lemma MemStorage_updateReview_frame:
  "snd (MemStorage_updateReview i upd st)
     = st\<lparr>reviews := reviews (snd (MemStorage_updateReview i upd st))\<rparr>
   \<and> jsmap_keys (reviews (snd (MemStorage_updateReview i upd st))) = jsmap_keys (reviews st)
   \<and> (\<forall>k. k \<noteq> i \<longrightarrow>
          jsmap_get (reviews (snd (MemStorage_updateReview i upd st))) k
            = jsmap_get (reviews st) k)
   \<and> jsmap_get (reviews (snd (MemStorage_updateReview i upd st))) i
       = map_option (\<lambda>r. spread_review r upd) (jsmap_get (reviews st) i)
   \<and> fst (MemStorage_updateReview i upd st)
       = map_option (\<lambda>r. spread_review r upd) (jsmap_get (reviews st) i)"
  by (cases "jsmap_get (reviews st) i")
     (simp_all add: MemStorage_updateReview_def Let_def jsmap_get_set jsmap_keys_set_present)

lemma spread_id:
  "u_id (spread_user u uu) = later_wins (u_id u) (uu_id uu)"
  "p_id (spread_provider p pu) = later_wins (p_id p) (pu_id pu)"
  "b_id (spread_booking b bu) = later_wins (b_id b) (bu_id bu)"
  "r_id (spread_review r ru) = later_wins (r_id r) (ru_id ru)"
  by (simp_all add: spread_user_def spread_provider_def spread_booking_def spread_review_def)

text \<open>
  C10. In the volatile store each of the four update methods changes nothing but its own
  collection; there it adds no key, removes none, and keeps the entry of every key other
  than the given id. Under the given id it stores the merged record (which it also
  returns) when the id was present. The key is the given id even when the update object
  has an \<open>id\<close> field of its own: the stored record's \<open>id\<close> field is then the update's, and
  differs from the key it is stored under whenever the two differ.
\<close>

theorem MemStorage_update_frame:
  "snd (MemStorage_updateUser i uu st)
     = st\<lparr>users := users (snd (MemStorage_updateUser i uu st))\<rparr>
   \<and> snd (MemStorage_updateProvider i pu st)
     = st\<lparr>providers := providers (snd (MemStorage_updateProvider i pu st))\<rparr>
   \<and> snd (MemStorage_updateBooking i bu st)
     = st\<lparr>bookings := bookings (snd (MemStorage_updateBooking i bu st))\<rparr>
   \<and> snd (MemStorage_updateReview i ru st)
     = st\<lparr>reviews := reviews (snd (MemStorage_updateReview i ru st))\<rparr>
   \<and> jsmap_keys (users (snd (MemStorage_updateUser i uu st))) = jsmap_keys (users st)
   \<and> jsmap_keys (providers (snd (MemStorage_updateProvider i pu st)))
       = jsmap_keys (providers st)
   \<and> jsmap_keys (bookings (snd (MemStorage_updateBooking i bu st)))
       = jsmap_keys (bookings st)
   \<and> jsmap_keys (reviews (snd (MemStorage_updateReview i ru st))) = jsmap_keys (reviews st)
   \<and> (\<forall>k. k \<noteq> i \<longrightarrow>
          jsmap_get (users (snd (MemStorage_updateUser i uu st))) k = jsmap_get (users st) k
          \<and> jsmap_get (providers (snd (MemStorage_updateProvider i pu st))) k
              = jsmap_get (providers st) k
          \<and> jsmap_get (bookings (snd (MemStorage_updateBooking i bu st))) k
              = jsmap_get (bookings st) k
          \<and> jsmap_get (reviews (snd (MemStorage_updateReview i ru st))) k
              = jsmap_get (reviews st) k)
   \<and> (\<forall>u. jsmap_get (users st) i = Some u \<longrightarrow>
          fst (MemStorage_updateUser i uu st) = Some (spread_user u uu)
          \<and> jsmap_get (users (snd (MemStorage_updateUser i uu st))) i = Some (spread_user u uu)
          \<and> (\<forall>j. uu_id uu = Some j \<longrightarrow> u_id (spread_user u uu) = j))
   \<and> (\<forall>p. jsmap_get (providers st) i = Some p \<longrightarrow>
          fst (MemStorage_updateProvider i pu st) = Some (spread_provider p pu)
          \<and> jsmap_get (providers (snd (MemStorage_updateProvider i pu st))) i
              = Some (spread_provider p pu)
          \<and> (\<forall>j. pu_id pu = Some j \<longrightarrow> p_id (spread_provider p pu) = j))
   \<and> (\<forall>b. jsmap_get (bookings st) i = Some b \<longrightarrow>
          fst (MemStorage_updateBooking i bu st) = Some (spread_booking b bu)
          \<and> jsmap_get (bookings (snd (MemStorage_updateBooking i bu st))) i
              = Some (spread_booking b bu)
          \<and> (\<forall>j. bu_id bu = Some j \<longrightarrow> b_id (spread_booking b bu) = j))
   \<and> (\<forall>r. jsmap_get (reviews st) i = Some r \<longrightarrow>
          fst (MemStorage_updateReview i ru st) = Some (spread_review r ru)
          \<and> jsmap_get (reviews (snd (MemStorage_updateReview i ru st))) i
              = Some (spread_review r ru)
          \<and> (\<forall>j. ru_id ru = Some j \<longrightarrow> r_id (spread_review r ru) = j))"
  using MemStorage_updateUser_frame[of i uu st] MemStorage_updateProvider_frame[of i pu st]
    MemStorage_updateBooking_frame[of i bu st] MemStorage_updateReview_frame[of i ru st]
  by (simp add: spread_id later_wins_def)

theorem MemStorage_update_frame_witness:
  "jsmap_keys (users (snd (MemStorage_updateUser ''u1'' (no_userUpdates\<lparr>uu_id := Some ''u2''\<rparr>) ex_mem)))
     = [''u1'']
   \<and> map_option u_id
        (jsmap_get (users (snd (MemStorage_updateUser ''u1'' (no_userUpdates\<lparr>uu_id := Some ''u2''\<rparr>)
           ex_mem))) ''u1'') = Some ''u2''
   \<and> jsmap_get (users (snd (MemStorage_updateUser ''u1'' (no_userUpdates\<lparr>uu_id := Some ''u2''\<rparr>)
        ex_mem))) ''u2'' = None
   \<and> jsmap_keys (providers (snd (MemStorage_updateProvider ''u1''
        (no_providerUpdates\<lparr>pu_id := Some ''p9''\<rparr>) ex_mem))) = [''p1'', ''p2'']
   \<and> map_option r_id
        (jsmap_get (reviews (snd (MemStorage_updateReview ''r2'' (no_reviewUpdates\<lparr>ru_id := Some ''r9''\<rparr>)
           ex_mem))) ''r2'') = Some ''r9''
   \<and> map_option r_id
        (jsmap_get (reviews (snd (MemStorage_updateReview ''r2'' (no_reviewUpdates\<lparr>ru_id := Some ''r9''\<rparr>)
           ex_mem))) ''r1'') = Some ''r1''
   \<and> map_option b_status
        (jsmap_get (bookings (snd (MemStorage_updateBooking ''b1''
           (no_bookingUpdates\<lparr>bu_status := Some ''confirmed''\<rparr>) ex_mem))) ''b1'')
       = Some ''confirmed''"
  using MemStorage_update_frame[of "''u1''" "no_userUpdates\<lparr>uu_id := Some ''u2''\<rparr>" ex_mem
      "no_providerUpdates\<lparr>pu_id := Some ''p9''\<rparr>"
      "no_bookingUpdates\<lparr>bu_status := Some ''confirmed''\<rparr>"
      "no_reviewUpdates\<lparr>ru_id := Some ''r9''\<rparr>"]
    MemStorage_update_frame[of "''r2''" "no_userUpdates\<lparr>uu_id := Some ''u2''\<rparr>" ex_mem
      "no_providerUpdates\<lparr>pu_id := Some ''p9''\<rparr>"
      "no_bookingUpdates\<lparr>bu_status := Some ''confirmed''\<rparr>"
      "no_reviewUpdates\<lparr>ru_id := Some ''r9''\<rparr>"]
    MemStorage_update_frame[of "''b1''" "no_userUpdates\<lparr>uu_id := Some ''u2''\<rparr>" ex_mem
      "no_providerUpdates\<lparr>pu_id := Some ''p9''\<rparr>"
      "no_bookingUpdates\<lparr>bu_status := Some ''confirmed''\<rparr>"
      "no_reviewUpdates\<lparr>ru_id := Some ''r9''\<rparr>"]
  by (simp add: example_defs mem_eval MemStorage_updateUser_def MemStorage_updateProvider_def
      MemStorage_updateBooking_def MemStorage_updateReview_def spread_user_def
      spread_provider_def spread_booking_def spread_review_def later_wins_def
      no_userUpdates_def no_providerUpdates_def no_bookingUpdates_def no_reviewUpdates_def)


section \<open>Listing providers and bookings\<close>


lemma provider_matches_with_user [simp]:
  "provider_matches lc f (with_user p us) = provider_matches lc f p"
  by (simp add: provider_matches_def with_user_def split: option.splits)

lemma MemStorage_getProviders_None:
  "MemStorage_getProviders lc None st = map (attach_user st) (jsmap_values (providers st))"
  by (simp add: MemStorage_getProviders_def attach_user_def linked_user_def map_option_case)


text \<open>
  C9. In the volatile store an empty string in a filter field counts as absent:
  \<open>getProviders\<close> with \<open>location = ""\<close> or with \<open>categoryId = ""\<close> returns what it returns
  without that field, and so does \<open>getBookings\<close> with \<open>customerId = ""\<close>,
  \<open>providerId = ""\<close> or \<open>status = ""\<close>, whatever the other fields are. With nothing but
  empty strings every stored provider (with its user summary) and every stored booking
  is returned.
\<close>

theorem MemStorage_empty_string_filter_absent:
  "MemStorage_getProviders lc (Some (f\<lparr>pf_location := Some ''''\<rparr>)) st
     = MemStorage_getProviders lc (Some (f\<lparr>pf_location := None\<rparr>)) st
   \<and> MemStorage_getProviders lc (Some (f\<lparr>pf_categoryId := Some ''''\<rparr>)) st
     = MemStorage_getProviders lc (Some (f\<lparr>pf_categoryId := None\<rparr>)) st
   \<and> MemStorage_getBookings (Some (g\<lparr>bf_customerId := Some ''''\<rparr>)) st
     = MemStorage_getBookings (Some (g\<lparr>bf_customerId := None\<rparr>)) st
   \<and> MemStorage_getBookings (Some (g\<lparr>bf_providerId := Some ''''\<rparr>)) st
     = MemStorage_getBookings (Some (g\<lparr>bf_providerId := None\<rparr>)) st
   \<and> MemStorage_getBookings (Some (g\<lparr>bf_status := Some ''''\<rparr>)) st
     = MemStorage_getBookings (Some (g\<lparr>bf_status := None\<rparr>)) st
   \<and> MemStorage_getProviders lc
        (Some \<lparr>pf_categoryId = Some '''', pf_location = Some '''', pf_isApproved = None\<rparr>) st
     = map (attach_user st) (jsmap_values (providers st))
   \<and> MemStorage_getBookings
        (Some \<lparr>bf_customerId = Some '''', bf_providerId = Some '''', bf_status = Some ''''\<rparr>) st
     = jsmap_values (bookings st)"
  by (simp add: MemStorage_getProviders_def MemStorage_getBookings_def truthy_def Let_def
      attach_user_def linked_user_def map_option_case)

theorem MemStorage_empty_string_filter_absent_witness:
  "map p_id (MemStorage_getProviders ascii_toLowerCase
       (Some \<lparr>pf_categoryId = Some '''', pf_location = Some ''west'', pf_isApproved = None\<rparr>) ex_mem)
     = [''p2'']
   \<and> map p_id (MemStorage_getProviders ascii_toLowerCase
       (Some \<lparr>pf_categoryId = Some ''c1'', pf_location = Some '''', pf_isApproved = None\<rparr>) ex_mem)
     = [''p1'']
   \<and> map p_id (MemStorage_getProviders ascii_toLowerCase
       (Some \<lparr>pf_categoryId = Some '''', pf_location = Some '''', pf_isApproved = None\<rparr>) ex_mem)
     = [''p1'', ''p2'']
   \<and> map b_id (MemStorage_getBookings
       (Some \<lparr>bf_customerId = Some '''', bf_providerId = Some '''', bf_status = Some ''''\<rparr>) ex_mem)
     = [''b1'']"
  using MemStorage_empty_string_filter_absent[of ascii_toLowerCase
      "\<lparr>pf_categoryId = Some '''', pf_location = Some ''west'', pf_isApproved = None\<rparr>" ex_mem
      "\<lparr>bf_customerId = Some '''', bf_providerId = Some '''', bf_status = Some ''''\<rparr>"]
    MemStorage_empty_string_filter_absent[of ascii_toLowerCase
      "\<lparr>pf_categoryId = Some ''c1'', pf_location = Some '''', pf_isApproved = None\<rparr>" ex_mem
      "\<lparr>bf_customerId = Some '''', bf_providerId = Some '''', bf_status = Some ''''\<rparr>"]
  by (simp add: example_defs mem_eval MemStorage_getProviders_def MemStorage_getBookings_def
      truthy_def with_user_def attach_user_def linked_user_def)







lemma MemStorage_getProviders_user:
  assumes "r \<in> set (MemStorage_getProviders lc filters st)"
  shows "user r = linked_user st r"
proof -
  have "set (MemStorage_getProviders lc filters st)
        \<subseteq> set (map (attach_user st) (jsmap_values (providers st)))"
    unfolding MemStorage_getProviders_None[of lc st, symmetric]
    by (cases filters) (auto simp: MemStorage_getProviders_def Let_def split: option.splits)
  with assms obtain p where "r = attach_user st p" by auto
  then show ?thesis by (simp add: attach_user_def with_user_def linked_user_def)
qed

text \<open>
  C3. The claim: in both backends each record returned by \<open>getProviders\<close> carries the
  summary of its linked user, or \<open>null\<close>. \<open>MemStorage.getProviders\<close> does
  (\<open>MemStorage_getProviders_user\<close>). \<open>DbStorage.getProviders\<close> returns the rows of the
  table as they are stored, a record type without the \<open>user\<close> field: in the example
  database, where provider \<open>p1\<close> links to the stored user \<open>u1\<close>, the result is the two
  stored rows.
\<close>

theorem DbStorage_getProviders_plain_rows:
  "DbStorage_getProviders like None ex_db = db_providers ex_db
   \<and> map (\<lambda>p. (p_id p, p_userId p)) (db_providers ex_db) = [(''p1'', ''u1''), (''p2'', ''u9'')]
   \<and> map_option u_email (DbStorage_getUser ''u1'' ex_db) = Some ''ann@example.com''"
  by (simp add: example_defs db_eval DbStorage_getProviders_def DbStorage_getUser_def)

section \<open>The rating of a provider\<close>

text \<open>
  C5, as amended. A provider created in the volatile store from an input without a
  rating has the rating \<open>"0"\<close>, a decimal-formatted string, in the record returned, which
  is the record stored under the new id. The stored rating is not always a
  decimal-formatted string: a rating string in the creation input, or in the update
  object of a later \<open>updateProvider\<close>, is stored as it is given.
\<close>

theorem MemStorage_createProvider_rating:
  "(ip_rating ins = None \<longrightarrow>
      p_rating (fst (MemStorage_createProvider newId now ins st)) = ''0''
      \<and> is_decimal_string (p_rating (fst (MemStorage_createProvider newId now ins st))))
   \<and> (\<forall>r. ip_rating ins = Some r \<longrightarrow>
          p_rating (fst (MemStorage_createProvider newId now ins st)) = r)
   \<and> jsmap_get (providers (snd (MemStorage_createProvider newId now ins st))) newId
       = Some (fst (MemStorage_createProvider newId now ins st))
   \<and> (\<forall>p r. jsmap_get (providers st) i = Some p \<and> pu_rating upd = Some r \<longrightarrow>
          map_option p_rating
            (jsmap_get (providers (snd (MemStorage_updateProvider i upd st))) i)
          = Some r)"
  by (auto simp: MemStorage_createProvider_def MemStorage_updateProvider_def Let_def
      nullish_def jsmap_get_set is_decimal_string_def is_digit_def spread_provider_def
      later_wins_def split: option.splits)

theorem MemStorage_createProvider_rating_witness:
  "ip_rating (ex_insertProvider ''u1'' ''North Side'' (Some True) [''c1'']) = None
   \<and> p_rating (fst (MemStorage_createProvider ''p7'' 7
        (ex_insertProvider ''u1'' ''North Side'' (Some True) [''c1'']) ex_mem)) = ''0''
   \<and> map_option p_rating (jsmap_get (providers (snd (MemStorage_createProvider ''p7'' 7
        (ex_insertProvider ''u1'' ''North Side'' (Some True) [''c1'']) ex_mem))) ''p7'') = Some ''0''
   \<and> p_rating (fst (MemStorage_createProvider ''p7'' 7
        ((ex_insertProvider ''u1'' ''North Side'' (Some True) [''c1''])\<lparr>ip_rating := Some ''4.5''\<rparr>)
        ex_mem)) = ''4.5''
   \<and> map_option p_rating (jsmap_get (providers ex_mem) ''p1'') = Some ''0''
   \<and> map_option p_rating (jsmap_get (providers (snd (MemStorage_updateProvider ''p1''
        (no_providerUpdates\<lparr>pu_rating := Some ''4.9''\<rparr>) ex_mem))) ''p1'') = Some ''4.9''"
  using MemStorage_createProvider_rating[of
      "ex_insertProvider ''u1'' ''North Side'' (Some True) [''c1'']" "''p7''" 7 ex_mem
      "''p1''" "no_providerUpdates\<lparr>pu_rating := Some ''4.9''\<rparr>"]
    MemStorage_createProvider_rating[of
      "(ex_insertProvider ''u1'' ''North Side'' (Some True) [''c1''])\<lparr>ip_rating := Some ''4.5''\<rparr>"
      "''p7''" 7 ex_mem "''p1''" "no_providerUpdates\<lparr>pu_rating := Some ''4.9''\<rparr>"]
  by (simp add: example_defs mem_eval no_providerUpdates_def MemStorage_updateProvider_def
      spread_provider_def later_wins_def jsmap_get_set)

text \<open>
  The general part of the claim fails: \<open>updateProvider\<close> stores a rating that is not
  decimal-formatted as readily as any other string.
\<close>

theorem stored_rating_not_decimal_counterexample:
  "map_option p_rating (jsmap_get (providers (snd (MemStorage_updateProvider ''p1''
      (no_providerUpdates\<lparr>pu_rating := Some ''n/a''\<rparr>) ex_mem))) ''p1'') = Some ''n/a''
   \<and> \<not> is_decimal_string ''n/a''"
  by (simp add: example_defs mem_eval no_providerUpdates_def MemStorage_updateProvider_def
      spread_provider_def later_wins_def is_decimal_string_def is_digit_def)

section \<open>What the seed leaves\<close>

lemma DbStorage_seedCategories_tables:
  "map sc_name (db_serviceCategories (DbStorage_seedCategories e k cats db))
     = map sc_name (db_serviceCategories db) @ map isc_name cats
   \<and> db_users (DbStorage_seedCategories e k cats db) = db_users db"
  by (induction cats arbitrary: k db)
     (simp_all add: DbStorage_createServiceCategory_def serviceCategories_row_def Let_def)

lemma DbStorage_seedProviders_tables:
  "map_sum id
     (\<lambda>db'. (map (\<lambda>u. (u_email u, u_role u)) (db_users db'), db_serviceCategories db'))
     (DbStorage_seedProviders e k ds db)
   = Inr (map (\<lambda>u. (u_email u, u_role u)) (db_users db) @ map (\<lambda>d. (sp_email d, sp_role d)) ds,
          db_serviceCategories db)"
  by (induction ds arbitrary: k db)
     (simp_all add: DbStorage_createUser_def DbStorage_createProvider_def
        DbStorage_updateProvider_def providerUpdates_defined_def update_where_returning_def
        users_row_def sample_user_def nullish_def Let_def split_def)

lemma DbStorage_seedProviders_result:
  obtains db' where "DbStorage_seedProviders e k ds db = Inr db'"
    and "map (\<lambda>u. (u_email u, u_role u)) (db_users db')
         = map (\<lambda>u. (u_email u, u_role u)) (db_users db) @ map (\<lambda>d. (sp_email d, sp_role d)) ds"
    and "db_serviceCategories db' = db_serviceCategories db"
  using DbStorage_seedProviders_tables[of e k ds db]
  by (cases "DbStorage_seedProviders e k ds db") auto

lemma DbStorage_sampleProviders_users:
  "map (\<lambda>d. (sp_email d, sp_role d)) (DbStorage_sampleProviders e a b c)
     = [(''mike@example.com'', Provider), (''sarah@example.com'', Provider),
        (''david@example.com'', Provider)]"
  by (simp add: DbStorage_sampleProviders_def)

lemma DbStorage_seed_empty_tables:
  assumes "db_serviceCategories db = []"
  obtains db' where "DbStorage_initializeSeedData e db = Inr db'"
    and "map sc_name (db_serviceCategories db') = map isc_name seed_categories"
    and "map (\<lambda>u. (u_email u, u_role u)) (db_users db')
           = map (\<lambda>u. (u_email u, u_role u)) (db_users db)
             @ [(''admin@localfix.com'', Admin), (''mike@example.com'', Provider),
                (''sarah@example.com'', Provider), (''david@example.com'', Provider)]"
proof -
  define db1 where "db1 = DbStorage_seedCategories e 0 seed_categories db"
  define db2 where
    "db2 = snd (DbStorage_createUser (randomUUID e 8) (date_now e 8) (admin_user e) db1)"
  define samples where
    "samples = DbStorage_sampleProviders e
       (find (\<lambda>c. sc_name c = ''Electrical'') (db_serviceCategories db2))
       (find (\<lambda>c. sc_name c = ''Plumbing'') (db_serviceCategories db2))
       (find (\<lambda>c. sc_name c = ''Carpentry'') (db_serviceCategories db2))"
  have run: "DbStorage_initializeSeedData e db = DbStorage_seedProviders e 9 samples db2"
    using assms
    by (simp add: DbStorage_initializeSeedData_def Let_def split_def db1_def db2_def
        samples_def del: DbStorage_seedProviders.simps)
  have cats2: "map sc_name (db_serviceCategories db2) = map isc_name seed_categories"
    using assms
    by (simp add: db2_def db1_def DbStorage_createUser_def Let_def
        DbStorage_seedCategories_tables)
  have users2: "map (\<lambda>u. (u_email u, u_role u)) (db_users db2)
      = map (\<lambda>u. (u_email u, u_role u)) (db_users db) @ [(''admin@localfix.com'', Admin)]"
    by (simp add: db2_def db1_def DbStorage_createUser_def Let_def users_row_def
        admin_user_def nullish_def DbStorage_seedCategories_tables)
  have people: "map (\<lambda>d. (sp_email d, sp_role d)) samples
      = [(''mike@example.com'', Provider), (''sarah@example.com'', Provider),
         (''david@example.com'', Provider)]"
    by (simp only: samples_def DbStorage_sampleProviders_users)
  obtain db' where res: "DbStorage_seedProviders e 9 samples db2 = Inr db'"
    "map (\<lambda>u. (u_email u, u_role u)) (db_users db')
       = map (\<lambda>u. (u_email u, u_role u)) (db_users db2)
         @ map (\<lambda>d. (sp_email d, sp_role d)) samples"
    "db_serviceCategories db' = db_serviceCategories db2"
    by (rule DbStorage_seedProviders_result)
  show thesis
  proof (rule that[of db'])
    show "DbStorage_initializeSeedData e db = Inr db'"
      by (simp only: run res(1))
    show "map sc_name (db_serviceCategories db') = map isc_name seed_categories"
      by (simp only: res(3) cats2)
    show "map (\<lambda>u. (u_email u, u_role u)) (db_users db')
           = map (\<lambda>u. (u_email u, u_role u)) (db_users db)
             @ [(''admin@localfix.com'', Admin), (''mike@example.com'', Provider),
                (''sarah@example.com'', Provider), (''david@example.com'', Provider)]"
      by (simp only: res(2) users2 people) simp
  qed
qed

lemma DbStorage_seed_existing:
  "db_serviceCategories db \<noteq> [] \<Longrightarrow> DbStorage_initializeSeedData e db = Inr db"
  by (simp add: DbStorage_initializeSeedData_def)

lemma DbStorage_seed_twice:
  obtains db' where "DbStorage_initializeSeedData e db = Inr db'"
    and "DbStorage_initializeSeedData e' db' = Inr db'"
proof (cases "db_serviceCategories db = []")
  case True
  obtain db' where first: "DbStorage_initializeSeedData e db = Inr db'"
    and cats: "map sc_name (db_serviceCategories db') = map isc_name seed_categories"
    using DbStorage_seed_empty_tables[OF True, of e] by blast
  from cats have "db_serviceCategories db' \<noteq> []"
    by (auto simp: seed_categories_def)
  then have "DbStorage_initializeSeedData e' db' = Inr db'"
    by (rule DbStorage_seed_existing)
  with first show thesis by (rule that)
next
  case False
  then have "DbStorage_initializeSeedData e db = Inr db"
    "DbStorage_initializeSeedData e' db = Inr db"
    by (simp_all add: DbStorage_seed_existing)
  then show thesis by (rule that)
qed

text \<open>
  C6. The durable store's seed initializer does nothing when the table of service
  categories has a row. Run twice it succeeds both times and leaves what the first run
  left, from any database and whatever the two runs draw; from the empty database that
  is the 8 service categories and 4 users: the administrator and the users of the three
  sample providers.
\<close>

theorem DbStorage_seed_idempotent:
  "(length (db_serviceCategories db) > 0 \<longrightarrow> DbStorage_initializeSeedData e db = Inr db)
   \<and> (\<exists>db1. DbStorage_initializeSeedData e db = Inr db1
          \<and> DbStorage_initializeSeedData e' db1 = Inr db1)
   \<and> (\<exists>db1. DbStorage_initializeSeedData e database_empty = Inr db1
          \<and> DbStorage_initializeSeedData e' db1 = Inr db1
          \<and> length (db_serviceCategories db1) = 8
          \<and> length (db_users db1) = 4
          \<and> map sc_name (db_serviceCategories db1)
              = [''Electrical'', ''Plumbing'', ''Carpentry'', ''HVAC'', ''General Contracting'',
                 ''Landscaping'', ''Painting'', ''Cleaning Services'']
          \<and> map (\<lambda>u. (u_email u, u_role u)) (db_users db1)
              = [(''admin@localfix.com'', Admin), (''mike@example.com'', Provider),
                 (''sarah@example.com'', Provider), (''david@example.com'', Provider)])"
proof (intro conjI)
  show "length (db_serviceCategories db) > 0 \<longrightarrow> DbStorage_initializeSeedData e db = Inr db"
    by (simp add: DbStorage_seed_existing)
  show "\<exists>db1. DbStorage_initializeSeedData e db = Inr db1
          \<and> DbStorage_initializeSeedData e' db1 = Inr db1"
  proof -
    obtain db1 where "DbStorage_initializeSeedData e db = Inr db1"
      "DbStorage_initializeSeedData e' db1 = Inr db1"
      by (rule DbStorage_seed_twice)
    then show ?thesis by (intro exI[of _ db1] conjI)
  qed
next
  have empty: "db_serviceCategories database_empty = []" "db_users database_empty = []"
    by (simp_all add: database_empty_def)
  obtain db1 where first: "DbStorage_initializeSeedData e database_empty = Inr db1"
    and cats: "map sc_name (db_serviceCategories db1) = map isc_name seed_categories"
    and people: "map (\<lambda>u. (u_email u, u_role u)) (db_users db1)
           = map (\<lambda>u. (u_email u, u_role u)) (db_users database_empty)
             @ [(''admin@localfix.com'', Admin), (''mike@example.com'', Provider),
                (''sarah@example.com'', Provider), (''david@example.com'', Provider)]"
    using DbStorage_seed_empty_tables[OF empty(1), of e] by blast
  have names: "map sc_name (db_serviceCategories db1)
      = [''Electrical'', ''Plumbing'', ''Carpentry'', ''HVAC'', ''General Contracting'',
         ''Landscaping'', ''Painting'', ''Cleaning Services'']"
    by (simp add: cats seed_categories_def)
  have people': "map (\<lambda>u. (u_email u, u_role u)) (db_users db1)
      = [(''admin@localfix.com'', Admin), (''mike@example.com'', Provider),
         (''sarah@example.com'', Provider), (''david@example.com'', Provider)]"
    by (simp add: people empty(2))
  have "length (map sc_name (db_serviceCategories db1)) = 8"
    by (simp only: names) simp
  then have n8: "length (db_serviceCategories db1) = 8"
    by simp
  have "length (map (\<lambda>u. (u_email u, u_role u)) (db_users db1)) = 4"
    by (simp only: people') simp
  then have n4: "length (db_users db1) = 4"
    by simp
  from n8 have "db_serviceCategories db1 \<noteq> []"
    by auto
  then have second: "DbStorage_initializeSeedData e' db1 = Inr db1"
    by (rule DbStorage_seed_existing)
  show "\<exists>db1. DbStorage_initializeSeedData e database_empty = Inr db1
          \<and> DbStorage_initializeSeedData e' db1 = Inr db1
          \<and> length (db_serviceCategories db1) = 8
          \<and> length (db_users db1) = 4
          \<and> map sc_name (db_serviceCategories db1)
              = [''Electrical'', ''Plumbing'', ''Carpentry'', ''HVAC'', ''General Contracting'',
                 ''Landscaping'', ''Painting'', ''Cleaning Services'']
          \<and> map (\<lambda>u. (u_email u, u_role u)) (db_users db1)
              = [(''admin@localfix.com'', Admin), (''mike@example.com'', Provider),
                 (''sarah@example.com'', Provider), (''david@example.com'', Provider)]"
    by (intro exI[of _ db1] conjI) (rule first second n8 n4 names people')+
qed

theorem DbStorage_seed_idempotent_witness:
  "length (db_serviceCategories ex_db) = 0
   \<and> (\<exists>db1. DbStorage_initializeSeedData ex_env ex_db = Inr db1
          \<and> length (db_serviceCategories db1) = 8
          \<and> DbStorage_initializeSeedData ex_env db1 = Inr db1)
   \<and> (\<exists>db1. DbStorage_initializeSeedData ex_env database_empty = Inr db1
          \<and> DbStorage_initializeSeedData ex_env db1 = Inr db1
          \<and> length (db_users db1) = 4)"
proof -
  have unseeded: "db_serviceCategories ex_db = []"
    by (simp add: example_defs db_eval)
  obtain db1 where first: "DbStorage_initializeSeedData ex_env ex_db = Inr db1"
    and cats: "map sc_name (db_serviceCategories db1) = map isc_name seed_categories"
    using DbStorage_seed_empty_tables[OF unseeded, of ex_env] by blast
  have "length (map sc_name (db_serviceCategories db1)) = 8"
    by (simp only: cats) (simp add: seed_categories_def)
  then have n8: "length (db_serviceCategories db1) = 8"
    by simp
  then have "length (db_serviceCategories db1) > 0"
    by simp
  note twice = DbStorage_seed_idempotent[of db1 ex_env ex_env]
  from twice[THEN conjunct1] \<open>length (db_serviceCategories db1) > 0\<close>
  have again: "DbStorage_initializeSeedData ex_env db1 = Inr db1"
    by (rule mp)
  from twice[THEN conjunct2, THEN conjunct2]
  obtain db0 where fresh: "DbStorage_initializeSeedData ex_env database_empty = Inr db0"
    "DbStorage_initializeSeedData ex_env db0 = Inr db0" "length (db_users db0) = 4"
    by (elim exE conjE)
  have one: "\<exists>db1. DbStorage_initializeSeedData ex_env ex_db = Inr db1
          \<and> length (db_serviceCategories db1) = 8
          \<and> DbStorage_initializeSeedData ex_env db1 = Inr db1"
    by (intro exI[of _ db1] conjI) (rule first n8 again)+
  have two: "\<exists>db1. DbStorage_initializeSeedData ex_env database_empty = Inr db1
          \<and> DbStorage_initializeSeedData ex_env db1 = Inr db1
          \<and> length (db_users db1) = 4"
    by (intro exI[of _ db0] conjI) (rule fresh)+
  from unseeded have zero: "length (db_serviceCategories ex_db) = 0"
    by simp
  show ?thesis
    by (intro conjI) (rule zero one two)+
qed

lemma jsmap_values_set:
  "set (jsmap_values (jsmap_set k v m)) \<subseteq> insert v (set (jsmap_values m))"
  by (induction m) (auto simp: jsmap_values_def)

lemma MemStorage_seedCategories_providers:
  "providers (MemStorage_seedCategories e k cats st) = providers st"
  by (induction cats arbitrary: k st)
     (simp_all add: MemStorage_createServiceCategory_def Let_def)

lemma MemStorage_seedProviders_unrated:
  assumes "\<forall>p \<in> set (jsmap_values (providers st)). p_rating p = ''0'' \<and> p_reviewCount p = 0"
  shows "\<forall>p \<in> set (jsmap_values (providers (MemStorage_seedProviders e k ds st))).
           p_rating p = ''0'' \<and> p_reviewCount p = 0"
  using assms
proof (induction ds arbitrary: k st)
  case Nil
  then show ?case by simp
next
  case (Cons d ds)
  show ?case
    unfolding MemStorage_seedProviders.simps Let_def split_def
  proof (rule Cons.IH)
    show "\<forall>p \<in> set (jsmap_values (providers (snd
        (MemStorage_createProvider (randomUUID e (k + 1)) (date_now e (k + 1))
          \<lparr> ip_userId = u_id (fst (MemStorage_createUser (randomUUID e k) (date_now e k)
                (sample_user d) st)),
            ip_specialty = sp_specialty d, ip_location = Some (sp_location d),
            ip_description = Some (sp_description d), ip_isApproved = Some (sp_isApproved d),
            ip_isAvailable = None, ip_businessName = None, ip_serviceRadius = None,
            ip_hourlyRate = Some (sp_hourlyRate d), ip_rating = None, ip_reviewCount = None,
            ip_categories = Some (sp_categories d), ip_availability = None,
            ip_profileImage = None, ip_portfolio = None, ip_certifications = None,
            ip_yearsExperience = None \<rparr>
          (snd (MemStorage_createUser (randomUUID e k) (date_now e k) (sample_user d) st)))))).
        p_rating p = ''0'' \<and> p_reviewCount p = 0"
      using Cons.prems jsmap_values_set
      by (fastforce simp: MemStorage_createProvider_def MemStorage_createUser_def Let_def
          nullish_def)
  qed
qed

lemma MemStorage_new_unrated:
  "p \<in> set (jsmap_values (providers (MemStorage_new e)))
   \<Longrightarrow> p_rating p = ''0'' \<and> p_reviewCount p = 0"
proof -
  have "\<forall>p \<in> set (jsmap_values (providers (MemStorage_new e))).
          p_rating p = ''0'' \<and> p_reviewCount p = 0"
    unfolding MemStorage_new_def MemStorage_initializeSeedData_def Let_def split_def
    by (rule MemStorage_seedProviders_unrated)
       (simp add: MemStorage_createUser_def MemStorage_seedCategories_providers
          MemStorage_empty_def jsmap_values_def Let_def)
  then show "p \<in> set (jsmap_values (providers (MemStorage_new e)))
      \<Longrightarrow> p_rating p = ''0'' \<and> p_reviewCount p = 0"
    by blast
qed

lemma DbStorage_seed_rated:
  "map_sum id (\<lambda>db. map (\<lambda>p. (p_specialty p, p_rating p, p_reviewCount p)) (db_providers db))
     (DbStorage_initializeSeedData ex_env database_empty)
     = Inr [(''Licensed Electrician'', ''4.9'', 127), (''Master Plumber'', ''4.8'', 93),
            (''Master Carpenter'', ''5.0'', 45)]"
  by code_simp

text \<open>
  C4. The claim: in both backends the seed creates each sample provider without rating
  and review count and then applies the sample values by a follow-up update.
  \<open>DbStorage.initializeSeedData\<close> does (\<open>DbStorage_seed_rated\<close>).
  \<open>MemStorage.initializeSeedData\<close> creates the provider and makes no update: whatever the
  run draws, every provider of a new volatile store has the rating \<open>"0"\<close> and the review
  count \<open>0\<close> (\<open>MemStorage_new_unrated\<close>), and with the example identifiers the three
  sample providers are stored so, not with \<open>"4.9"\<close> and 127, \<open>"4.8"\<close> and 94, \<open>"5.0"\<close>
  and 73.
\<close>

theorem MemStorage_seed_ratings_not_applied:
  "map (\<lambda>p. (p_specialty p, p_rating p, p_reviewCount p))
     (jsmap_values (providers (MemStorage_new ex_env)))
     = [(''Licensed Electrician'', ''0'', 0), (''Master Plumber'', ''0'', 0),
        (''Custom Carpenter'', ''0'', 0)]"
  by code_simp

end
